theory Spec2Isabelle
  imports Main "HOL-Library.Monad_Syntax"
begin

section \<open>JavaScript values, thrown values and the request gateway\<close>

text \<open>
  The module \<^verbatim>\<open>src/operations/tasks.ts\<close> (task lists and tasks, followed by the comment
  operations) talks to the Planka service through one function, \<^verbatim>\<open>plankaRequest\<close>, whose
  result has the TypeScript type \<^verbatim>\<open>any\<close>. A response is therefore an arbitrary JavaScript
  value as \<^verbatim>\<open>JSON.parse\<close> builds them, plus \<^verbatim>\<open>undefined\<close>. Numbers are the integers
  (the only arithmetic of the module is \<^verbatim>\<open>65535 * (i + 1)\<close> on an array index, which is exact
  in a double for every array length); an object is the list of its own properties, read
  with \<open>map_of\<close>.
\<close>

datatype jsval =
    JUndefined
  | JNull
  | JBool bool
  | JNum int
  | JStr string
  | JArr "jsval list"
  | JObj "(string \<times> jsval) list"

text \<open>
  A thrown value is only ever inspected by
  \<^verbatim>\<open>error instanceof Error ? error.message : String(error)\<close>, so it is represented by
  what that expression can see: an \<^verbatim>\<open>Error\<close> with its message, or another value with its
  \<^verbatim>\<open>String(...)\<close> rendering.
\<close>

datatype exn = Error string | Thrown string

fun message_of :: "exn \<Rightarrow> string" where
  "message_of (Error m) = m"
| "message_of (Thrown s) = s"

datatype http_method = GET | POST | PATCH | DELETE

text \<open>The seven path templates of the module, and the strings they produce.\<close>

datatype endpoint =
    CardTaskLists string
  | Card string
  | TaskList string
  | TaskListTasks string
  | Task string
  | CardComments string
  | Comment string

fun path :: "endpoint \<Rightarrow> string" where
  "path (CardTaskLists c) = ''/api/cards/'' @ c @ ''/task-lists''"
| "path (Card c) = ''/api/cards/'' @ c"
| "path (TaskList tid) = ''/api/task-lists/'' @ tid"
| "path (TaskListTasks taskListId) = ''/api/task-lists/'' @ taskListId @ ''/tasks''"
| "path (Task tid) = ''/api/tasks/'' @ tid"
| "path (CardComments c) = ''/api/cards/'' @ c @ ''/comments''"
| "path (Comment cid) = ''/api/comments/'' @ cid"

record request =
  http_method :: http_method
  endpoint :: endpoint
  body :: "jsval option"

datatype schema =
    TaskResponseSchema
  | CommentActionResponseSchema
  | CommentActionsResponseSchema
  | CommentActionArraySchema

text \<open>
  What the module takes from outside itself. \<open>respond\<close> is the remote service behind
  \<^verbatim>\<open>plankaRequest\<close>: the answer to the \<open>n\<close>-th call of a run, given the method, the path
  string and the body that go over the wire. The other fields are renderings fixed by the
  JavaScript engine or by the zod library (\<open>ToString\<close> is only applied to values that are
  not strings; \<open>inheritedString\<close> renders, inside a template literal, the member of
  \<^verbatim>\<open>Object.prototype\<close> of the given name), and \<open>PlankaTaskSchema\<close> is the validator
  imported from \<^verbatim>\<open>../common/types.js\<close>, which returns the validated entity or fails.
\<close>

record env =
  respond :: "nat \<Rightarrow> http_method \<Rightarrow> string \<Rightarrow> jsval option \<Rightarrow> exn + jsval"
  ToString :: "jsval \<Rightarrow> string"
  typeErrorMessage :: "jsval \<Rightarrow> string \<Rightarrow> string"
  zodMessage :: "schema \<Rightarrow> jsval \<Rightarrow> string"
  JSON_stringify :: "jsval \<Rightarrow> string"
  inheritedString :: "string \<Rightarrow> string"
  PlankaTaskSchema :: "jsval \<Rightarrow> jsval option"

text \<open>
  \<^verbatim>\<open>CreateTaskOptions\<close>, the parameter object of \<^verbatim>\<open>createTask\<close>. The batch operation
  writes into the objects of its input array, so those live in a store and the array holds
  references.
\<close>

record CreateTaskOptions =
  cardId :: string
  name :: string
  position :: "int option"

type_synonym ref = nat

text \<open>
  The state of a run: the own properties of the module-level object \<^verbatim>\<open>taskCardIdMap\<close>,
  the store of the caller's task objects, and the exchanges with the remote service so
  far, oldest first.
\<close>

record state =
  taskCardIdMap :: "string \<rightharpoonup> string"
  heap :: "ref \<Rightarrow> CreateTaskOptions"
  calls :: "(request \<times> (exn + jsval)) list"

text \<open>
  \<^verbatim>\<open>taskCardIdMap\<close> is created as the plain object \<^verbatim>\<open>{}\<close>, so it inherits the members
  of \<^verbatim>\<open>Object.prototype\<close>. A read \<^verbatim>\<open>taskCardIdMap[k]\<close> gives the own property when
  there is one, else the inherited member when \<open>k\<close> names one, else \<^verbatim>\<open>undefined\<close>. A
  write \<^verbatim>\<open>taskCardIdMap[k] = v\<close> of a string creates or replaces the own property,
  except under the key \<^verbatim>\<open>__proto__\<close>, where the inherited setter is called and ignores
  a value that is no object.
\<close>

definition Object_prototype_names :: "string list" where
  "Object_prototype_names =
     [''constructor'', ''__defineGetter__'', ''__defineSetter__'', ''hasOwnProperty'',
      ''__lookupGetter__'', ''__lookupSetter__'', ''isPrototypeOf'', ''propertyIsEnumerable'',
      ''toString'', ''valueOf'', ''__proto__'', ''toLocaleString'']"

datatype member = CardId string | Inherited string | NoMember

definition map_read :: "(string \<rightharpoonup> string) \<Rightarrow> string \<Rightarrow> member" where
  "map_read m k =
     (case m k of
        Some v \<Rightarrow> CardId v
      | None \<Rightarrow> if k \<in> set Object_prototype_names then Inherited k else NoMember)"

definition map_write :: "(string \<rightharpoonup> string) \<Rightarrow> string \<Rightarrow> string \<Rightarrow> (string \<rightharpoonup> string)" where
  "map_write m k v = (if k = ''__proto__'' then m else m(k \<mapsto> v))"

text \<open>
  The truth value of what a read gives (a function or an object is truthy), and its
  rendering inside a template literal.
\<close>

fun member_truthy :: "member \<Rightarrow> bool" where
  "member_truthy (CardId c) = (c \<noteq> [])"
| "member_truthy (Inherited k) = True"
| "member_truthy NoMember = False"

fun member_string :: "env \<Rightarrow> member \<Rightarrow> string" where
  "member_string E (CardId c) = c"
| "member_string E (Inherited k) = inheritedString E k"
| "member_string E NoMember = ''undefined''"

type_synonym 'a io = "state \<Rightarrow> (exn + 'a) \<times> state"

definition returnE :: "'a \<Rightarrow> 'a io" where
  "returnE x = (\<lambda>s. (Inr x, s))"

definition throwE :: "exn \<Rightarrow> 'a io" where
  "throwE e = (\<lambda>s. (Inl e, s))"

definition bindE :: "'a io \<Rightarrow> ('a \<Rightarrow> 'b io) \<Rightarrow> 'b io" where
  "bindE m f = (\<lambda>s. case m s of (Inl e, s') \<Rightarrow> (Inl e, s') | (Inr x, s') \<Rightarrow> f x s')"

definition lift :: "exn + 'a \<Rightarrow> 'a io" where
  "lift r = (\<lambda>s. (r, s))"

text \<open>
  \<^verbatim>\<open>try { ... } catch (error) { throw new Error(`<prefix>${error instanceof Error ?
  error.message : String(error)}`) }\<close>
\<close>

definition catch_wrap :: "string \<Rightarrow> 'a io \<Rightarrow> 'a io" where
  "catch_wrap prefix m =
     (\<lambda>s. case m s of
        (Inl e, s') \<Rightarrow> (Inl (Error (prefix @ message_of e)), s')
      | (Inr x, s') \<Rightarrow> (Inr x, s'))"

definition plankaRequest :: "env \<Rightarrow> request \<Rightarrow> jsval io" where
  "plankaRequest E req =
     (\<lambda>s. let r = respond E (length (calls s)) (http_method req) (path (endpoint req)) (body req)
          in (r, s\<lparr>calls := calls s @ [(req, r)]\<rparr>))"

subsection \<open>Operators of the language\<close>

fun truthy :: "jsval \<Rightarrow> bool" where
  "truthy JUndefined = False"
| "truthy JNull = False"
| "truthy (JBool b) = b"
| "truthy (JNum n) = (n \<noteq> 0)"
| "truthy (JStr s) = (s \<noteq> [])"
| "truthy (JArr xs) = True"
| "truthy (JObj kvs) = True"

text \<open>
  \<open>v.k\<close> for the property names the module reads (\<^verbatim>\<open>item\<close>, \<^verbatim>\<open>id\<close>,
  \<^verbatim>\<open>included\<close>, \<^verbatim>\<open>taskLists\<close>, \<^verbatim>\<open>tasks\<close>): a \<^verbatim>\<open>TypeError\<close> on \<^verbatim>\<open>undefined\<close> and
  \<^verbatim>\<open>null\<close>, the own property of an object, \<^verbatim>\<open>undefined\<close> on everything else.
\<close>

fun get_prop :: "env \<Rightarrow> jsval \<Rightarrow> string \<Rightarrow> exn + jsval" where
  "get_prop E JUndefined k = Inl (Error (typeErrorMessage E JUndefined k))"
| "get_prop E JNull k = Inl (Error (typeErrorMessage E JNull k))"
| "get_prop E (JObj kvs) k = Inr (case map_of kvs k of None \<Rightarrow> JUndefined | Some v \<Rightarrow> v)"
| "get_prop E v k = Inr JUndefined"

text \<open>\<open>v?.k\<close>\<close>

fun opt_prop :: "jsval \<Rightarrow> string \<Rightarrow> jsval" where
  "opt_prop (JObj kvs) k = (case map_of kvs k of None \<Rightarrow> JUndefined | Some v \<Rightarrow> v)"
| "opt_prop v k = JUndefined"

text \<open>\<open>a || b\<close>\<close>

definition lor :: "jsval \<Rightarrow> jsval \<Rightarrow> jsval" where
  "lor a b = (if truthy a then a else b)"

text \<open>A value inside a template literal or used as a property key.\<close>

definition toStr :: "env \<Rightarrow> jsval \<Rightarrow> string" where
  "toStr E v = (case v of JStr s \<Rightarrow> s | _ \<Rightarrow> ToString E v)"

section \<open>Task lists and tasks\<close>

text \<open>\<^verbatim>\<open>createTask\<close> (lines 127-157): creates a task list on a card.\<close>

definition createTask :: "env \<Rightarrow> CreateTaskOptions \<Rightarrow> jsval io" where
  "createTask E params =
     catch_wrap ''Failed to create task list: ''
       (let pos = (case position params of None \<Rightarrow> 65535 | Some p \<Rightarrow> p) in
        bindE (plankaRequest E
                 \<lparr>http_method = POST, endpoint = CardTaskLists (cardId params),
                  body = Some (JObj [(''name'', JStr (name params)),
                                     (''position'', JNum pos)])\<rparr>)
          (\<lambda>response.
            bindE (lift (get_prop E response ''item''))
              (\<lambda>item.
                if truthy item then
                  bindE (lift (get_prop E item ''id''))
                    (\<lambda>item_id. if truthy item_id
                          then (\<lambda>s. (Inr item,
                                     s\<lparr>taskCardIdMap :=
                                         map_write (taskCardIdMap s) (toStr E item_id)
                                           (cardId params)\<rparr>))
                          else returnE item)
                else returnE item)))"

text \<open>
  \<^verbatim>\<open>batchCreateTasks\<close> (lines 166-241). An entry of \<^verbatim>\<open>results\<close> is the object
  \<^verbatim>\<open>{success: true, result}\<close> or \<^verbatim>\<open>{success: false, error: {message}}\<close>; an entry of
  \<^verbatim>\<open>failures\<close> is a \<^verbatim>\<open>TaskError\<close>, whose \<^verbatim>\<open>task\<close> is the input object itself.
\<close>

record TaskError =
  index :: nat
  task :: ref
  error :: string

record batch_result =
  results :: "jsval list"
  successes :: "jsval list"
  failures :: "TaskError list"

text \<open>\<open>!task.position\<close>\<close>

definition position_missing :: "int option \<Rightarrow> bool" where
  "position_missing p = (case p of None \<Rightarrow> True | Some n \<Rightarrow> n = 0)"

fun batch_loop :: "env \<Rightarrow> ref list \<Rightarrow> nat \<Rightarrow> batch_result \<Rightarrow> state \<Rightarrow> batch_result \<times> state" where
  "batch_loop E [] i acc s = (acc, s)"
| "batch_loop E (t # rest) i acc s =
     (let s1 = (if position_missing (position (heap s t))
                then s\<lparr>heap := (heap s)
                       (t := (heap s t)\<lparr>position := Some (65535 * (int i + 1))\<rparr>)\<rparr>
                else s)
      in case createTask E (heap s1 t) s1 of
           (Inr result, s2) \<Rightarrow>
             batch_loop E rest (i + 1)
               (acc\<lparr>results := results acc @ [JObj [(''success'', JBool True), (''result'', result)]],
                    successes := successes acc @ [result]\<rparr>) s2
         | (Inl err, s2) \<Rightarrow>
             (let errorMessage = message_of err in
              batch_loop E rest (i + 1)
                (acc\<lparr>results := results acc @
                        [JObj [(''success'', JBool False),
                               (''error'', JObj [(''message'', JStr errorMessage)])]],
                     failures := failures acc @
                        [\<lparr>index = i, task = t, error = errorMessage\<rparr>]\<rparr>) s2))"

definition batchCreateTasks :: "env \<Rightarrow> ref list \<Rightarrow> batch_result io" where
  "batchCreateTasks E tasks =
     catch_wrap ''Failed to batch create tasks: ''
       (\<lambda>s. case batch_loop E tasks 0 \<lparr>results = [], successes = [], failures = []\<rparr> s of
              (acc, s') \<Rightarrow> (Inr acc, s'))"

text \<open>\<^verbatim>\<open>try { ... } catch (error) { return <value> }\<close>\<close>

definition catch_return :: "'a \<Rightarrow> 'a io \<Rightarrow> 'a io" where
  "catch_return d m =
     (\<lambda>s. case m s of
        (Inl e, s') \<Rightarrow> (Inr d, s')
      | (Inr x, s') \<Rightarrow> (Inr x, s'))"

fun isArray :: "jsval \<Rightarrow> bool" where
  "isArray (JArr xs) = True"
| "isArray v = False"

text \<open>
  \<^verbatim>\<open>getTasks\<close> (lines 249-272). A call of \<^verbatim>\<open>plankaRequest\<close> with a path only is a
  \<^verbatim>\<open>GET\<close> without a body.
\<close>

definition getTasks :: "env \<Rightarrow> string \<Rightarrow> jsval io" where
  "getTasks E c =
     catch_return (JArr [])
       (bindE (plankaRequest E \<lparr>http_method = GET, endpoint = Card c, body = None\<rparr>)
          (\<lambda>response.
            let taskLists = lor (opt_prop (opt_prop response ''included'') ''taskLists'')
                                (opt_prop (opt_prop response ''included'') ''tasks'')
            in if truthy taskLists \<and> isArray taskLists then returnE taskLists
               else returnE (JArr [])))"

text \<open>
  \<^verbatim>\<open>taskLists.find((tl) => tl.id === id)\<close>: the first element whose \<^verbatim>\<open>id\<close> is the string
  \<open>tid\<close>, \<^verbatim>\<open>undefined\<close> when there is none; reading \<^verbatim>\<open>id\<close> of a \<^verbatim>\<open>null\<close> element throws.
\<close>

fun find_by_id :: "env \<Rightarrow> jsval list \<Rightarrow> string \<Rightarrow> exn + jsval" where
  "find_by_id E [] tid = Inr JUndefined"
| "find_by_id E (x # rest) tid =
     (case get_prop E x ''id'' of
        Inl e \<Rightarrow> Inl e
      | Inr v \<Rightarrow> if v = JStr tid then Inr x else find_by_id E rest tid)"

fun elements :: "jsval \<Rightarrow> jsval list" where
  "elements (JArr xs) = xs"
| "elements v = []"

text \<open>
  \<^verbatim>\<open>getTask\<close> (lines 281-326). The optional \<^verbatim>\<open>cardId\<close> is \<open>None\<close> when it is not
  passed; \<^verbatim>\<open>cardId || taskCardIdMap[id]\<close> (\<open>taskCardId_of\<close>) is the argument when
  that is a non-empty string and what the read of the map gives otherwise, and
  \<^verbatim>\<open>!taskCardId\<close> holds of \<^verbatim>\<open>undefined\<close> and of the empty string.
\<close>

definition card_id_required :: string where
  "card_id_required =
     ''Card ID is required to get a task list. Either provide it directly or create the task list first.''"

definition taskCardId_of :: "state \<Rightarrow> string \<Rightarrow> string option \<Rightarrow> member" where
  "taskCardId_of s tid cardId_arg =
     (case cardId_arg of
        Some c \<Rightarrow> if c \<noteq> [] then CardId c else map_read (taskCardIdMap s) tid
      | None \<Rightarrow> map_read (taskCardIdMap s) tid)"

definition getTask :: "env \<Rightarrow> string \<Rightarrow> string option \<Rightarrow> jsval io" where
  "getTask E tid cardId_arg =
     catch_wrap ''Failed to get task list: ''
       (\<lambda>s. let taskCardId = taskCardId_of s tid cardId_arg
            in if \<not> member_truthy taskCardId then throwE (Error card_id_required) s
               else
                 bindE (plankaRequest E \<lparr>http_method = GET,
                                          endpoint = Card (member_string E taskCardId),
                                          body = None\<rparr>)
                   (\<lambda>response.
                     let taskLists =
                           lor (opt_prop (opt_prop response ''included'') ''taskLists'')
                               (opt_prop (opt_prop response ''included'') ''tasks'')
                     in if \<not> truthy taskLists \<or> \<not> isArray taskLists then
                          throwE (Error (''Failed to get task lists for card '' @
                                         member_string E taskCardId))
                        else
                          bindE (lift (find_by_id E (elements taskLists) tid))
                            (\<lambda>taskList.
                              if \<not> truthy taskList then
                                throwE (Error (''Task list with ID '' @ tid @
                                               '' not found in card '' @
                                               member_string E taskCardId))
                              else returnE taskList)) s)"

text \<open>
  \<^verbatim>\<open>z.record(z.any()).optional()\<close> on the \<^verbatim>\<open>included\<close> property: absent (or
  \<^verbatim>\<open>undefined\<close>) or an object.
\<close>

fun included_ok :: "jsval option \<Rightarrow> bool" where
  "included_ok None = True"
| "included_ok (Some JUndefined) = True"
| "included_ok (Some (JObj kvs)) = True"
| "included_ok (Some v) = False"




text \<open>
  \<^verbatim>\<open>createTaskInTaskList\<close> (lines 370-396). \<^verbatim>\<open>taskListId\<close> is declared a string, but
  \<^verbatim>\<open>createTaskListWithTasks\<close> passes the \<^verbatim>\<open>id\<close> of an unvalidated response.
\<close>

definition createTaskInTaskList ::
  "env \<Rightarrow> jsval \<Rightarrow> string \<Rightarrow> int option \<Rightarrow> bool option \<Rightarrow> jsval io" where
  "createTaskInTaskList E taskListId nm position_arg isCompleted_arg =
     catch_wrap ''Failed to create task in task list: ''
       (let pos = (case position_arg of None \<Rightarrow> 65535 | Some p \<Rightarrow> p);
            isCompleted = (case isCompleted_arg of None \<Rightarrow> False | Some b \<Rightarrow> b)
        in bindE (plankaRequest E
                    \<lparr>http_method = POST, endpoint = TaskListTasks (toStr E taskListId),
                     body = Some (JObj [(''name'', JStr nm), (''position'', JNum pos),
                                        (''isCompleted'', JBool isCompleted)])\<rparr>)
             (\<lambda>response. lift (get_prop E response ''item'')))"



text \<open>
  \<^verbatim>\<open>createTaskListWithTasks\<close> (lines 445-482). An element of \<^verbatim>\<open>params.tasks\<close> is
  \<^verbatim>\<open>{name, isCompleted?}\<close>; \<^verbatim>\<open>task.isCompleted || false\<close> is \<^verbatim>\<open>true\<close> only for
  \<^verbatim>\<open>true\<close>.
\<close>

record task_item =
  task_name :: string
  isCompleted :: "bool option"

fun create_items :: "env \<Rightarrow> jsval \<Rightarrow> task_item list \<Rightarrow> nat \<Rightarrow> jsval list \<Rightarrow> jsval list io" where
  "create_items E taskList [] i createdTasks s = (Inr createdTasks, s)"
| "create_items E taskList (t # rest) i createdTasks s =
     (case get_prop E taskList ''id'' of
        Inl e \<Rightarrow> (Inl e, s)
      | Inr taskListId \<Rightarrow>
          (case createTaskInTaskList E taskListId (task_name t)
                  (Some (65535 * (int i + 1))) (Some (isCompleted t = Some True)) s of
             (Inl e, s') \<Rightarrow> (Inl e, s')
           | (Inr createdTask, s') \<Rightarrow>
               create_items E taskList rest (i + 1) (createdTasks @ [createdTask]) s'))"

definition createTaskListWithTasks ::
  "env \<Rightarrow> string \<Rightarrow> string \<Rightarrow> task_item list \<Rightarrow> (jsval \<times> jsval list) io" where
  "createTaskListWithTasks E c nm tasks =
     catch_wrap ''Failed to create task list with tasks: ''
       (bindE (createTask E \<lparr>cardId = c, name = nm, position = None\<rparr>)
          (\<lambda>taskList.
            bindE (create_items E taskList tasks 0 [])
              (\<lambda>createdTasks. returnE (taskList, createdTasks))))"

section \<open>Comments\<close>

text \<open>
  A value accepted by \<^verbatim>\<open>CommentActionSchema\<close>. zod returns a fresh object holding the
  declared properties only; its \<^verbatim>\<open>type\<close> is always \<^verbatim>\<open>"commentCard"\<close> and is not
  stored. \<open>updatedAt\<close> is \<open>None\<close> for \<^verbatim>\<open>null\<close>.
\<close>

record CommentAction =
  comment_id :: string
  comment_text :: string
  comment_cardId :: string
  userId :: string
  createdAt :: string
  updatedAt :: "string option"

fun str_of :: "jsval option \<Rightarrow> string option" where
  "str_of (Some (JStr x)) = Some x"
| "str_of v = None"

fun obj_of :: "jsval option \<Rightarrow> (string \<times> jsval) list option" where
  "obj_of (Some (JObj kvs)) = Some kvs"
| "obj_of v = None"

text \<open>\<^verbatim>\<open>z.string().nullable()\<close>\<close>

fun nullable_str_of :: "jsval option \<Rightarrow> string option option" where
  "nullable_str_of (Some (JStr x)) = Some (Some x)"
| "nullable_str_of (Some JNull) = Some None"
| "nullable_str_of v = None"

definition CommentActionSchema :: "jsval \<Rightarrow> CommentAction option" where
  "CommentActionSchema v =
     (case v of
        JObj kvs \<Rightarrow>
          do {
            i \<leftarrow> str_of (map_of kvs ''id'');
            ty \<leftarrow> str_of (map_of kvs ''type'');
            d \<leftarrow> obj_of (map_of kvs ''data'');
            txt \<leftarrow> str_of (map_of d ''text'');
            c \<leftarrow> str_of (map_of kvs ''cardId'');
            u \<leftarrow> str_of (map_of kvs ''userId'');
            ca \<leftarrow> str_of (map_of kvs ''createdAt'');
            ua \<leftarrow> nullable_str_of (map_of kvs ''updatedAt'');
            if ty = ''commentCard''
            then Some \<lparr>comment_id = i, comment_text = txt, comment_cardId = c, userId = u,
                       createdAt = ca, updatedAt = ua\<rparr>
            else None
          }
      | _ \<Rightarrow> None)"

text \<open>\<^verbatim>\<open>z.array(CommentActionSchema)\<close> on the elements of an array.\<close>

definition CommentActionArray :: "jsval list \<Rightarrow> CommentAction list option" where
  "CommentActionArray xs = those (map CommentActionSchema xs)"

text \<open>\<^verbatim>\<open>CommentActionsResponseSchema\<close>: \<^verbatim>\<open>{items: [...], included?: {...}}\<close>, giving the items.\<close>

definition CommentActionsResponse :: "jsval \<Rightarrow> CommentAction list option" where
  "CommentActionsResponse response =
     (case response of
        JObj kvs \<Rightarrow>
          (case map_of kvs ''items'' of
             Some (JArr xs) \<Rightarrow>
               if included_ok (map_of kvs ''included'') then CommentActionArray xs else None
           | _ \<Rightarrow> None)
      | _ \<Rightarrow> None)"



text \<open>
  \<^verbatim>\<open>getComments\<close> (lines 612-638): the inner \<^verbatim>\<open>try\<close> parses the enveloped shape, its
  \<^verbatim>\<open>catch\<close> parses a bare array or throws, and the outer \<^verbatim>\<open>catch\<close> returns \<^verbatim>\<open>[]\<close>.
\<close>

definition getComments :: "env \<Rightarrow> string \<Rightarrow> CommentAction list io" where
  "getComments E c =
     catch_return []
       (bindE (plankaRequest E \<lparr>http_method = GET, endpoint = CardComments c, body = None\<rparr>)
          (\<lambda>response.
            case CommentActionsResponse response of
              Some items \<Rightarrow> returnE items
            | None \<Rightarrow>
                if isArray response then
                  (case CommentActionArray (elements response) of
                     Some items \<Rightarrow> returnE items
                   | None \<Rightarrow> throwE (Error (zodMessage E CommentActionArraySchema response)))
                else
                  throwE (Error (''Could not parse comments response: '' @
                                 JSON_stringify E response))))"




section \<open>Sequences of calls\<close>




section \<open>Notions used by the statements\<close>

subsection \<open>Exchanges with the remote service\<close>

text \<open>The state when the module has just been loaded: \<^verbatim>\<open>const taskCardIdMap = {}\<close>.\<close>

definition initial_state :: "(ref \<Rightarrow> CreateTaskOptions) \<Rightarrow> state" where
  "initial_state h = \<lparr>taskCardIdMap = Map.empty, heap = h, calls = []\<rparr>"

text \<open>The answer of the remote service to the next call, when that call is \<open>req\<close>.\<close>

definition next_response :: "env \<Rightarrow> state \<Rightarrow> request \<Rightarrow> exn + jsval" where
  "next_response E s req =
     respond E (length (calls s)) (http_method req) (path (endpoint req)) (body req)"

text \<open>What the remote service answers to the next fetch of a card's comments, or of a card.\<close>

definition fetch_comments :: "env \<Rightarrow> string \<Rightarrow> state \<Rightarrow> exn + jsval" where
  "fetch_comments E c s =
     respond E (length (calls s)) GET (''/api/cards/'' @ c @ ''/comments'') None"

definition fetch_card :: "env \<Rightarrow> string \<Rightarrow> state \<Rightarrow> exn + jsval" where
  "fetch_card E c s = respond E (length (calls s)) GET (''/api/cards/'' @ c) None"

text \<open>The request that fetches the card \<open>c\<close>.\<close>

definition card_request :: "string \<Rightarrow> request" where
  "card_request c = \<lparr>http_method = GET, endpoint = Card c, body = None\<rparr>"

text \<open>The exchanges with the remote service that a step from \<open>s\<close> to \<open>s'\<close> added.\<close>

definition new_calls :: "state \<Rightarrow> state \<Rightarrow> (request \<times> (exn + jsval)) list" where
  "new_calls s s' = drop (length (calls s)) (calls s')"

subsection \<open>Cards and their checklist collection\<close>

text \<open>\<^verbatim>\<open>response?.included?.<k>\<close>: what a card response embeds under the name \<open>k\<close>.\<close>

definition included_field :: "jsval \<Rightarrow> string \<Rightarrow> jsval" where
  "included_field r k = opt_prop (opt_prop r ''included'') k"

text \<open>
  The checklist collection of a card response, as both reads extract it:
  \<^verbatim>\<open>response?.included?.taskLists || response?.included?.tasks\<close>.
\<close>

definition checklist_collection :: "jsval \<Rightarrow> jsval" where
  "checklist_collection r = lor (included_field r ''taskLists'') (included_field r ''tasks'')"

text \<open>\<^verbatim>\<open>null\<close> or \<^verbatim>\<open>undefined\<close>: the values of which no property can be read.\<close>

definition nullish :: "jsval \<Rightarrow> bool" where
  "nullish v = (v = JNull \<or> v = JUndefined)"

text \<open>The entity \<open>x\<close> carries the identifier \<open>tid\<close>.\<close>

definition has_id :: "string \<Rightarrow> jsval \<Rightarrow> bool" where
  "has_id tid x = (opt_prop x ''id'' = JStr tid)"

text \<open>
  The entries that the scan for \<open>tid\<close> reads before it stops: those ahead of the first
  entry that carries \<open>tid\<close>, all of them when there is none.
\<close>

definition scanned :: "string \<Rightarrow> jsval list \<Rightarrow> jsval list" where
  "scanned tid xs = takeWhile (\<lambda>x. \<not> has_id tid x) xs"

text \<open>A string that is given and not empty.\<close>

definition str_truthy :: "string option \<Rightarrow> bool" where
  "str_truthy v = (case v of None \<Rightarrow> False | Some x \<Rightarrow> x \<noteq> [])"

text \<open>
  The card a call of \<^verbatim>\<open>getTask\<close> addresses: the \<^verbatim>\<open>cardId\<close> argument when it is given
  and not empty, else the entry of \<^verbatim>\<open>taskCardIdMap\<close> for the task list when there is one
  and it is not empty.
\<close>

definition resolved_card_id :: "state \<Rightarrow> string \<Rightarrow> string option \<Rightarrow> string option" where
  "resolved_card_id s tid cardId_arg =
     (if str_truthy cardId_arg then cardId_arg
      else if str_truthy (taskCardIdMap s tid) then taskCardIdMap s tid
      else None)"

text \<open>
  The identifier \<open>tid\<close> has no entry in \<^verbatim>\<open>taskCardIdMap\<close> and is the name of a member of
  \<^verbatim>\<open>Object.prototype\<close>, which a read of the map then finds in place of an entry.
\<close>

definition inherited_hit :: "state \<Rightarrow> string \<Rightarrow> bool" where
  "inherited_hit s tid = (taskCardIdMap s tid = None \<and> tid \<in> set Object_prototype_names)"

subsection \<open>Comment responses\<close>

text \<open>
  The two shapes of a comments response: an object with an \<^verbatim>\<open>items\<close> array and, optionally,
  an \<^verbatim>\<open>included\<close> object; or a bare array. Each gives the raw elements.
\<close>

definition envelope_items :: "jsval \<Rightarrow> jsval list option" where
  "envelope_items r =
     (case r of
        JObj kvs \<Rightarrow>
          (case map_of kvs ''items'' of
             Some (JArr xs) \<Rightarrow> if included_ok (map_of kvs ''included'') then Some xs else None
           | _ \<Rightarrow> None)
      | _ \<Rightarrow> None)"

definition bare_items :: "jsval \<Rightarrow> jsval list option" where
  "bare_items r = (case r of JArr xs \<Rightarrow> Some xs | _ \<Rightarrow> None)"

text \<open>
  The raw elements \<open>xs\<close> validate to the comments \<open>items\<close>: element by element, in the
  same order.
\<close>

definition validated :: "jsval list \<Rightarrow> CommentAction list \<Rightarrow> bool" where
  "validated xs items = (map CommentActionSchema xs = map Some items)"

subsection \<open>Creations of task lists\<close>

text \<open>The request by which \<^verbatim>\<open>createTask\<close> creates the task list described by \<open>p\<close>.\<close>

definition create_request :: "CreateTaskOptions \<Rightarrow> request" where
  "create_request p =
     \<lparr>http_method = POST, endpoint = CardTaskLists (cardId p),
      body = Some (JObj [(''name'', JStr (name p)),
                         (''position'', JNum (case position p of None \<Rightarrow> 65535 | Some q \<Rightarrow> q))])\<rparr>"

text \<open>
  What a creation of a task list comes to, given the answer of the remote service: the
  \<^verbatim>\<open>item\<close> of the response, or the wrapped failure.
\<close>

definition create_outcome :: "env \<Rightarrow> exn + jsval \<Rightarrow> exn + jsval" where
  "create_outcome E r =
     (case r of
        Inl e \<Rightarrow> Inl (Error (''Failed to create task list: '' @ message_of e))
      | Inr response \<Rightarrow>
          (case get_prop E response ''item'' of
             Inl e \<Rightarrow> Inl (Error (''Failed to create task list: '' @ message_of e))
           | Inr item \<Rightarrow> Inr item))"

text \<open>
  The key under which a created entity is recorded in \<^verbatim>\<open>taskCardIdMap\<close>, if any: its
  \<^verbatim>\<open>id\<close> as a property key, when the \<^verbatim>\<open>id\<close> is truthy and that key is not
  \<^verbatim>\<open>__proto__\<close>, under which the assignment of a card id stores nothing.
\<close>

definition recorded_key :: "env \<Rightarrow> jsval \<Rightarrow> string option" where
  "recorded_key E item =
     (if truthy item \<and> truthy (opt_prop item ''id'') \<and>
         toStr E (opt_prop item ''id'') \<noteq> ''__proto__''
      then Some (toStr E (opt_prop item ''id''))
      else None)"

text \<open>
  The map after the exchange \<open>x\<close>: a successful creation of a task list on the card
  \<open>c\<close> records the key of the created entity for \<open>c\<close>, any other exchange records
  nothing.
\<close>

definition record_creation ::
  "env \<Rightarrow> (string \<rightharpoonup> string) \<Rightarrow> request \<times> (exn + jsval) \<Rightarrow> (string \<rightharpoonup> string)" where
  "record_creation E m x =
     (case (http_method (fst x), endpoint (fst x), create_outcome E (snd x)) of
        (POST, CardTaskLists c, Inr item) \<Rightarrow>
          (case recorded_key E item of Some k \<Rightarrow> m(k \<mapsto> c) | None \<Rightarrow> m)
      | _ \<Rightarrow> m)"

text \<open>The outcomes of the creations that a list of exchanges carried out.\<close>

definition outcomes :: "env \<Rightarrow> (request \<times> (exn + jsval)) list \<Rightarrow> (exn + jsval) list" where
  "outcomes E news = map (\<lambda>x. create_outcome E (snd x)) news"

text \<open>
  The three views \<^verbatim>\<open>batchCreateTasks\<close> returns, read off the outcomes of the creations in
  input order: the entry of \<^verbatim>\<open>results\<close> for an outcome, the created entities of the
  successful ones, and a failure record for each failed one, holding the (0-based) index
  of the item, the reference to the input item and the message.
\<close>

fun result_entry :: "exn + jsval \<Rightarrow> jsval" where
  "result_entry (Inr item) = JObj [(''success'', JBool True), (''result'', item)]"
| "result_entry (Inl e) =
     JObj [(''success'', JBool False), (''error'', JObj [(''message'', JStr (message_of e))])]"

fun success_items :: "(exn + jsval) list \<Rightarrow> jsval list" where
  "success_items [] = []"
| "success_items (Inr item # os) = item # success_items os"
| "success_items (Inl e # os) = success_items os"

fun failure_records :: "nat \<Rightarrow> ref list \<Rightarrow> (exn + jsval) list \<Rightarrow> TaskError list" where
  "failure_records i (t # ts) (Inl e # os) =
     \<lparr>index = i, task = t, error = message_of e\<rparr> # failure_records (i + 1) ts os"
| "failure_records i (t # ts) (Inr item # os) = failure_records (i + 1) ts os"
| "failure_records i ts os = []"

subsection \<open>Creations of items\<close>

text \<open>The request that creates the task list itself, with the default position.\<close>

definition list_request :: "string \<Rightarrow> string \<Rightarrow> request" where
  "list_request c nm = create_request \<lparr>cardId = c, name = nm, position = None\<rparr>"

text \<open>
  The request by which \<^verbatim>\<open>createTaskListWithTasks\<close> creates the item \<open>t\<close> at the
  (0-based) index \<open>i\<close> inside the task list whose \<^verbatim>\<open>id\<close> is \<open>taskListId\<close>.
\<close>

definition item_request :: "env \<Rightarrow> jsval \<Rightarrow> nat \<Rightarrow> task_item \<Rightarrow> request" where
  "item_request E taskListId i t =
     \<lparr>http_method = POST, endpoint = TaskListTasks (toStr E taskListId),
      body = Some (JObj [(''name'', JStr (task_name t)),
                         (''position'', JNum (65535 * (int i + 1))),
                         (''isCompleted'', JBool (isCompleted t = Some True))])\<rparr>"

text \<open>The item requests for the items \<open>ts\<close>, the first of which has index \<open>i\<close>.\<close>

definition item_requests :: "env \<Rightarrow> jsval \<Rightarrow> nat \<Rightarrow> task_item list \<Rightarrow> request list" where
  "item_requests E taskList i ts =
     map (\<lambda>(j, t). item_request E (opt_prop taskList ''id'') j t) (enumerate i ts)"

text \<open>What the creation of an item comes to, given the answer of the remote service.\<close>

definition item_outcome :: "env \<Rightarrow> exn + jsval \<Rightarrow> exn + jsval" where
  "item_outcome E r =
     (case r of
        Inl e \<Rightarrow> Inl (Error (''Failed to create task in task list: '' @ message_of e))
      | Inr response \<Rightarrow>
          (case get_prop E response ''item'' of
             Inl e \<Rightarrow> Inl (Error (''Failed to create task in task list: '' @ message_of e))
           | Inr item \<Rightarrow> Inr item))"

definition item_outcomes :: "env \<Rightarrow> (request \<times> (exn + jsval)) list \<Rightarrow> (exn + jsval) list" where
  "item_outcomes E xs = map (\<lambda>x. item_outcome E (snd x)) xs"


subsection \<open>The auxiliary map\<close>








subsection \<open>Wrapped failures\<close>







subsection \<open>A concrete environment and concrete data\<close>

text \<open>
  An environment over the remote service \<open>r\<close>, with fixed renderings; those of the
  \<^verbatim>\<open>TypeError\<close> and of the members of \<^verbatim>\<open>Object.prototype\<close> are the ones of V8.
\<close>

definition example_env :: "(nat \<Rightarrow> http_method \<Rightarrow> string \<Rightarrow> jsval option \<Rightarrow> exn + jsval) \<Rightarrow> env" where
  "example_env r =
     \<lparr>respond = r,
      ToString = (\<lambda>v. ''[value]''),
      typeErrorMessage =
        (\<lambda>v k. ''Cannot read properties of '' @ (if v = JNull then ''null'' else ''undefined'') @
               '' (reading '' @ [CHR 0x27] @ k @ [CHR 0x27] @ '')''),
      zodMessage = (\<lambda>sc v. ''invalid response''),
      JSON_stringify = (\<lambda>v. ''...''),
      inheritedString =
        (\<lambda>k. if k = ''__proto__'' then ''[object Object]''
             else ''function '' @ (if k = ''constructor'' then ''Object'' else k) @
                  ''() { [native code] }''),
      PlankaTaskSchema = (\<lambda>v. case v of JObj kvs \<Rightarrow> Some v | _ \<Rightarrow> None)\<rparr>"

text \<open>A remote service that answers the calls of a run from a fixed list, in order.\<close>

definition scripted :: "(exn + jsval) list \<Rightarrow> env" where
  "scripted rs =
     example_env (\<lambda>n m p b. if n < length rs then rs ! n
                            else Inl (Error ''connection refused''))"

text \<open>
  Four task objects of a caller: \<^verbatim>\<open>A\<close> and \<^verbatim>\<open>C\<close> without a position, \<^verbatim>\<open>B\<close> with
  position \<^verbatim>\<open>7\<close>, \<^verbatim>\<open>D\<close> with position \<^verbatim>\<open>0\<close>.
\<close>

definition example_heap :: "ref \<Rightarrow> CreateTaskOptions" where
  "example_heap r =
     (if r = 10 then \<lparr>cardId = ''c1'', name = ''A'', position = None\<rparr>
      else if r = 20 then \<lparr>cardId = ''c1'', name = ''B'', position = Some 7\<rparr>
      else if r = 30 then \<lparr>cardId = ''c2'', name = ''C'', position = None\<rparr>
      else \<lparr>cardId = ''c3'', name = ''D'', position = Some 0\<rparr>)"

text \<open>A card response embedding \<open>a\<close> under \<^verbatim>\<open>taskLists\<close> and \<open>b\<close> under \<^verbatim>\<open>tasks\<close>.\<close>

definition card_with :: "jsval \<Rightarrow> jsval \<Rightarrow> jsval" where
  "card_with a b = JObj [(''item'', JObj [(''id'', JStr ''c1'')]),
                           (''included'', JObj [(''taskLists'', a), (''tasks'', b)])]"

text \<open>A comment as the service sends it, and as \<^verbatim>\<open>CommentActionSchema\<close> returns it.\<close>

definition example_comment_json :: "string \<Rightarrow> jsval" where
  "example_comment_json i =
     JObj [(''id'', JStr i), (''type'', JStr ''commentCard''),
           (''data'', JObj [(''text'', JStr ''hello'')]), (''cardId'', JStr ''c1''),
           (''userId'', JStr ''u1''), (''createdAt'', JStr ''2025-01-01''),
           (''updatedAt'', JNull), (''extra'', JBool True)]"

definition example_comment :: "string \<Rightarrow> CommentAction" where
  "example_comment i =
     \<lparr>comment_id = i, comment_text = ''hello'', comment_cardId = ''c1'', userId = ''u1'',
      createdAt = ''2025-01-01'', updatedAt = None\<rparr>"

text \<open>The response to the creation of a task list, naming the new list \<open>i\<close>.\<close>

definition created :: "string \<Rightarrow> jsval" where
  "created i = JObj [(''item'', JObj [(''id'', JStr i), (''name'', JStr ''A'')])]"

text \<open>Two task lists embedded in a card.\<close>

definition two_lists :: "jsval list" where
  "two_lists = [JObj [(''id'', JStr ''t1''), (''name'', JStr ''A'')],
                JObj [(''id'', JStr ''t2''), (''name'', JStr ''B'')]]"


text \<open>Three items to create, and the response to the creation of an item.\<close>

definition three_items :: "task_item list" where
  "three_items = [\<lparr>task_name = ''x'', isCompleted = None\<rparr>,
                  \<lparr>task_name = ''y'', isCompleted = Some True\<rparr>,
                  \<lparr>task_name = ''z'', isCompleted = Some False\<rparr>]"

definition created_item :: "string \<Rightarrow> jsval" where
  "created_item i = JObj [(''item'', JObj [(''id'', JStr i)])]"




section \<open>Basic facts\<close>

lemma those_map_Some: "those (map f xs) = Some ys \<longleftrightarrow> map f xs = map Some ys"
proof (induction xs arbitrary: ys)
  case Nil
  then show ?case by auto
next
  case (Cons x xs)
  then show ?case by (cases "f x"; cases ys) (auto split: option.splits)
qed

lemma those_members:
  "those (map f xs) = Some ys \<Longrightarrow> v \<in> set ys \<Longrightarrow> \<exists>x\<in>set xs. f x = Some v"
proof -
  assume "those (map f xs) = Some ys" and v: "v \<in> set ys"
  then have eq: "map f xs = map Some ys" by (simp add: those_map_Some)
  from v have "Some v \<in> set (map Some ys)" by simp
  with eq have "Some v \<in> set (map f xs)" by simp
  then show ?thesis by auto
qed

lemma CommentActionSchema_example [simp]:
  "CommentActionSchema (example_comment_json i) = Some (example_comment i)"
  by (simp add: CommentActionSchema_def example_comment_json_def example_comment_def)

lemma initial_state_simps:
  "taskCardIdMap (initial_state h) = Map.empty"
  "heap (initial_state h) = h"
  "calls (initial_state h) = []"
  by (simp_all add: initial_state_def)

text \<open>The fields of a scripted environment, and the definitions a concrete run unfolds.\<close>

lemma scripted_simps:
  "respond (scripted rs) n m p b =
     (if n < length rs then rs ! n else Inl (Error ''connection refused''))"
  "ToString (scripted rs) v = ''[value]''"
  "typeErrorMessage (scripted rs) v k =
     ''Cannot read properties of '' @ (if v = JNull then ''null'' else ''undefined'') @
     '' (reading '' @ [CHR 0x27] @ k @ [CHR 0x27] @ '')''"
  "zodMessage (scripted rs) sc v = ''invalid response''"
  "JSON_stringify (scripted rs) v = ''...''"
  "inheritedString (scripted rs) k =
     (if k = ''__proto__'' then ''[object Object]''
      else ''function '' @ (if k = ''constructor'' then ''Object'' else k) @
           ''() { [native code] }'')"
  "PlankaTaskSchema (scripted rs) v = (case v of JObj kvs \<Rightarrow> Some v | _ \<Rightarrow> None)"
  by (simp_all add: scripted_def example_env_def)

lemmas run_defs = catch_wrap_def catch_return_def bindE_def returnE_def throwE_def lift_def
  plankaRequest_def Let_def toStr_def map_write_def map_read_def taskCardId_of_def

lemma truthy_get_prop: "truthy v \<Longrightarrow> get_prop E v k = Inr (opt_prop v k)"
  by (cases v) auto

lemma get_prop_not_nullish: "\<not> nullish x \<Longrightarrow> get_prop E x k = Inr (opt_prop x k)"
  by (cases x) (auto simp: nullish_def)


lemma isArray_truthy: "isArray v \<Longrightarrow> truthy v"
  by (cases v) auto

lemma has_id_truthy: "has_id tid x \<Longrightarrow> truthy x"
  by (cases x) (auto simp: has_id_def)







lemma bind_request_ok:
  "next_response E s req = Inr r \<Longrightarrow>
   fst (bindE (plankaRequest E req) (\<lambda>response. lift (g response)) s) = g r"
  by (simp add: bindE_def plankaRequest_def next_response_def Let_def lift_def)

lemma bind_request_fails:
  "next_response E s req = Inl e \<Longrightarrow>
   fst (bindE (plankaRequest E req) f s) = Inl e"
  by (simp add: bindE_def plankaRequest_def next_response_def Let_def)



lemma plankaRequest_effect:
  "plankaRequest E req s = (r, s') \<Longrightarrow>
   calls s' = calls s @ [(req, r)] \<and> taskCardIdMap s' = taskCardIdMap s \<and> heap s' = heap s"
  by (auto simp: plankaRequest_def Let_def)

section \<open>Reading comments\<close>

lemma getComments_fetch:
  "fst (getComments E c s) =
     (case fetch_comments E c s of
        Inl e \<Rightarrow> Inr []
      | Inr r \<Rightarrow>
          (case CommentActionsResponse r of
             Some items \<Rightarrow> Inr items
           | None \<Rightarrow>
               (case r of
                  JArr xs \<Rightarrow> (case CommentActionArray xs of Some items \<Rightarrow> Inr items | None \<Rightarrow> Inr [])
                | _ \<Rightarrow> Inr [])))"
  by (auto simp: getComments_def fetch_comments_def catch_return_def bindE_def plankaRequest_def
      returnE_def throwE_def Let_def split: sum.splits option.splits jsval.splits prod.splits)

lemma CommentActionsResponse_envelope:
  "CommentActionsResponse r =
     (case envelope_items r of None \<Rightarrow> None | Some xs \<Rightarrow> CommentActionArray xs)"
  by (auto simp: CommentActionsResponse_def envelope_items_def split: jsval.splits option.splits)

text \<open>
  C6. \<^verbatim>\<open>getComments\<close> never raises. A failed fetch gives the empty sequence. A response of
  the enveloped shape whose items validate gives the validated items, in order; so does a
  bare array whose elements validate; a response that validates in neither shape gives the
  empty sequence.
\<close>

theorem getComments_shapes:
  "(\<exists>items. fst (getComments E c s) = Inr items) \<and>
   (\<forall>e. fetch_comments E c s = Inl e \<longrightarrow> fst (getComments E c s) = Inr []) \<and>
   (\<forall>r. fetch_comments E c s = Inr r \<longrightarrow>
      (\<forall>xs items. envelope_items r = Some xs \<and> validated xs items \<longrightarrow>
          fst (getComments E c s) = Inr items) \<and>
      (\<forall>xs items. bare_items r = Some xs \<and> validated xs items \<longrightarrow>
          fst (getComments E c s) = Inr items) \<and>
      ((\<forall>xs items. envelope_items r = Some xs \<longrightarrow> \<not> validated xs items) \<and>
       (\<forall>xs items. bare_items r = Some xs \<longrightarrow> \<not> validated xs items) \<longrightarrow>
          fst (getComments E c s) = Inr []))"
  apply (simp add: getComments_fetch CommentActionsResponse_envelope validated_def bare_items_def
       CommentActionArray_def  those_map_Some[symmetric]
       split: sum.splits option.splits jsval.splits)
  apply (auto simp: envelope_items_def split: jsval.splits option.splits if_splits)
  done

theorem getComments_shapes_witness:
  "fetch_comments (scripted [Inl (Error ''offline'')]) ''c1'' (initial_state example_heap)
     = Inl (Error ''offline'') \<and>
   fst (getComments (scripted [Inl (Error ''offline'')]) ''c1'' (initial_state example_heap))
     = Inr [] \<and>
   envelope_items (JObj [(''items'', JArr [example_comment_json ''7'', example_comment_json ''8''])])
     = Some [example_comment_json ''7'', example_comment_json ''8''] \<and>
   validated [example_comment_json ''7'', example_comment_json ''8'']
     [example_comment ''7'', example_comment ''8''] \<and>
   fst (getComments
          (scripted [Inr (JObj [(''items'',
             JArr [example_comment_json ''7'', example_comment_json ''8''])])])
          ''c1'' (initial_state example_heap))
     = Inr [example_comment ''7'', example_comment ''8''] \<and>
   bare_items (JArr [example_comment_json ''9'']) = Some [example_comment_json ''9''] \<and>
   fst (getComments (scripted [Inr (JArr [example_comment_json ''9''])])
          ''c1'' (initial_state example_heap))
     = Inr [example_comment ''9''] \<and>
   fst (getComments (scripted [Inr (JArr [JNum 3])])
          ''c1'' (initial_state example_heap))
     = Inr []"
proof -
  let ?s = "initial_state example_heap"
  let ?E1 = "scripted [Inl (Error ''offline'')]"
  let ?r2 = "JObj [(''items'', JArr [example_comment_json ''7'', example_comment_json ''8''])]"
  let ?E2 = "scripted [Inr ?r2]"
  let ?r3 = "JArr [example_comment_json ''9'']"
  let ?E3 = "scripted [Inr ?r3]"
  let ?r4 = "JArr [JNum 3]"
  let ?E4 = "scripted [Inr ?r4]"
  have f1: "fetch_comments ?E1 ''c1'' ?s = Inl (Error ''offline'')"
    by (simp add: fetch_comments_def scripted_def example_env_def initial_state_def)
  have f2: "fetch_comments ?E2 ''c1'' ?s = Inr ?r2"
    by (simp add: fetch_comments_def scripted_def example_env_def initial_state_def)
  have f3: "fetch_comments ?E3 ''c1'' ?s = Inr ?r3"
    by (simp add: fetch_comments_def scripted_def example_env_def initial_state_def)
  have f4: "fetch_comments ?E4 ''c1'' ?s = Inr ?r4"
    by (simp add: fetch_comments_def scripted_def example_env_def initial_state_def)
  have e2: "envelope_items ?r2 = Some [example_comment_json ''7'', example_comment_json ''8'']"
    by (simp add: envelope_items_def)
  have v2: "validated [example_comment_json ''7'', example_comment_json ''8'']
     [example_comment ''7'', example_comment ''8'']"
    by (simp add: validated_def)
  have b3: "bare_items ?r3 = Some [example_comment_json ''9'']"
    by (simp add: bare_items_def)
  have v3: "validated [example_comment_json ''9''] [example_comment ''9'']"
    by (simp add: validated_def)
  have n4: "(\<forall>xs items. envelope_items ?r4 = Some xs \<longrightarrow> \<not> validated xs items) \<and>
       (\<forall>xs items. bare_items ?r4 = Some xs \<longrightarrow> \<not> validated xs items)"
    by (auto simp: envelope_items_def bare_items_def validated_def CommentActionSchema_def)
  have c1: "fst (getComments ?E1 ''c1'' ?s) = Inr []"
    using getComments_shapes[of ?E1 "''c1''" ?s] f1 by blast
  have c2: "fst (getComments ?E2 ''c1'' ?s) = Inr [example_comment ''7'', example_comment ''8'']"
    using getComments_shapes[of ?E2 "''c1''" ?s] f2 e2 v2 by blast
  have c3: "fst (getComments ?E3 ''c1'' ?s) = Inr [example_comment ''9'']"
    using getComments_shapes[of ?E3 "''c1''" ?s] f3 b3 v3 by blast
  have c4: "fst (getComments ?E4 ''c1'' ?s) = Inr []"
    using getComments_shapes[of ?E4 "''c1''" ?s] f4 n4 by blast
  show ?thesis
    using f1 c1 e2 v2 c2 b3 c3 c4 by simp
qed



section \<open>Reading task lists\<close>

lemma getTasks_fetch:
  "fst (getTasks E c s) =
     (case fetch_card E c s of
        Inl e \<Rightarrow> Inr (JArr [])
      | Inr r \<Rightarrow>
          (let taskLists = lor (included_field r ''taskLists'') (included_field r ''tasks'')
           in if truthy taskLists \<and> isArray taskLists then Inr taskLists else Inr (JArr [])))"
  by (auto simp: getTasks_def fetch_card_def catch_return_def bindE_def plankaRequest_def
      returnE_def Let_def included_field_def split: sum.splits prod.splits)

text \<open>
  C7. \<^verbatim>\<open>getTasks\<close> never raises. When the fetch of the card fails it returns the empty
  sequence. On a fetched card it returns what is embedded under \<^verbatim>\<open>taskLists\<close> when that
  is an array; what is embedded under \<^verbatim>\<open>tasks\<close> when \<^verbatim>\<open>taskLists\<close> is absent or
  otherwise falsy and \<^verbatim>\<open>tasks\<close> is an array; and the empty sequence in every other case.
\<close>

theorem getTasks_cases:
  "(\<exists>v. fst (getTasks E c s) = Inr v) \<and>
   (\<forall>e. fetch_card E c s = Inl e \<longrightarrow> fst (getTasks E c s) = Inr (JArr [])) \<and>
   (\<forall>r. fetch_card E c s = Inr r \<longrightarrow>
      (isArray (included_field r ''taskLists'') \<longrightarrow>
         fst (getTasks E c s) = Inr (included_field r ''taskLists'')) \<and>
      (\<not> truthy (included_field r ''taskLists'') \<and> isArray (included_field r ''tasks'') \<longrightarrow>
         fst (getTasks E c s) = Inr (included_field r ''tasks'')) \<and>
      (\<not> isArray (included_field r ''taskLists'') \<and>
       (truthy (included_field r ''taskLists'') \<or> \<not> isArray (included_field r ''tasks'')) \<longrightarrow>
         fst (getTasks E c s) = Inr (JArr [])))"
  by (auto simp: getTasks_fetch lor_def Let_def isArray_truthy split: sum.splits)

text \<open>
  A card whose \<^verbatim>\<open>taskLists\<close> is a non-empty string hides the array under \<^verbatim>\<open>tasks\<close>:
  \<^verbatim>\<open>taskLists || tasks\<close> is the string, which is no array.
\<close>

theorem getTasks_counterexample:
  "fetch_card (scripted [Inr (card_with (JStr ''n/a'') (JArr [JObj [(''id'', JStr ''t1'')]]))])
      ''c1'' (initial_state example_heap)
     = Inr (card_with (JStr ''n/a'') (JArr [JObj [(''id'', JStr ''t1'')]])) \<and>
   included_field (card_with (JStr ''n/a'') (JArr [JObj [(''id'', JStr ''t1'')]])) ''tasks''
     = JArr [JObj [(''id'', JStr ''t1'')]] \<and>
   fst (getTasks (scripted [Inr (card_with (JStr ''n/a'') (JArr [JObj [(''id'', JStr ''t1'')]]))])
          ''c1'' (initial_state example_heap))
     = Inr (JArr [])"
  by (simp add: getTasks_fetch fetch_card_def scripted_def example_env_def initial_state_def
      card_with_def included_field_def lor_def)

theorem getTasks_cases_witness:
  "fst (getTasks (scripted [Inl (Error ''offline'')]) ''c1'' (initial_state example_heap))
     = Inr (JArr []) \<and>
   fst (getTasks (scripted [Inr (card_with (JArr [JObj [(''id'', JStr ''t1'')]]) JUndefined)])
          ''c1'' (initial_state example_heap))
     = Inr (JArr [JObj [(''id'', JStr ''t1'')]]) \<and>
   fst (getTasks (scripted [Inr (card_with JNull (JArr [JObj [(''id'', JStr ''t2'')]]))])
          ''c1'' (initial_state example_heap))
     = Inr (JArr [JObj [(''id'', JStr ''t2'')]]) \<and>
   fst (getTasks (scripted [Inr (card_with JUndefined JUndefined)])
          ''c1'' (initial_state example_heap))
     = Inr (JArr [])"
proof -
  let ?s = "initial_state example_heap"
  let ?r2 = "card_with (JArr [JObj [(''id'', JStr ''t1'')]]) JUndefined"
  let ?r3 = "card_with JNull (JArr [JObj [(''id'', JStr ''t2'')]])"
  let ?r4 = "card_with JUndefined JUndefined"
  have f: "fetch_card (scripted [x]) ''c1'' ?s = x" for x
    by (simp add: fetch_card_def scripted_def example_env_def initial_state_def)
  have c1: "fst (getTasks (scripted [Inl (Error ''offline'')]) ''c1'' ?s) = Inr (JArr [])"
    using getTasks_cases[of "scripted [Inl (Error ''offline'')]" "''c1''" ?s] f by blast
  have i2: "isArray (included_field ?r2 ''taskLists'')"
    and v2: "included_field ?r2 ''taskLists'' = JArr [JObj [(''id'', JStr ''t1'')]]"
    by (simp_all add: included_field_def card_with_def)
  have c2: "fst (getTasks (scripted [Inr ?r2]) ''c1'' ?s) = Inr (JArr [JObj [(''id'', JStr ''t1'')]])"
    using getTasks_cases[of "scripted [Inr ?r2]" "''c1''" ?s] f[of "Inr ?r2"] i2 v2 by metis
  have i3: "\<not> truthy (included_field ?r3 ''taskLists'') \<and> isArray (included_field ?r3 ''tasks'')"
    and v3: "included_field ?r3 ''tasks'' = JArr [JObj [(''id'', JStr ''t2'')]]"
    by (simp_all add: included_field_def card_with_def)
  have c3: "fst (getTasks (scripted [Inr ?r3]) ''c1'' ?s) = Inr (JArr [JObj [(''id'', JStr ''t2'')]])"
    using getTasks_cases[of "scripted [Inr ?r3]" "''c1''" ?s] f[of "Inr ?r3"] i3 v3 by metis
  have i4: "\<not> isArray (included_field ?r4 ''taskLists'') \<and>
       (truthy (included_field ?r4 ''taskLists'') \<or> \<not> isArray (included_field ?r4 ''tasks''))"
    by (simp add: included_field_def card_with_def)
  have c4: "fst (getTasks (scripted [Inr ?r4]) ''c1'' ?s) = Inr (JArr [])"
    using getTasks_cases[of "scripted [Inr ?r4]" "''c1''" ?s] f[of "Inr ?r4"] i4 by metis
  show ?thesis using c1 c2 c3 c4 by simp
qed

section \<open>Reading one task list\<close>

lemma find_by_id_scanned:
  "\<forall>x\<in>set (scanned tid xs). \<not> nullish x \<Longrightarrow>
   find_by_id E xs tid = Inr (case find (has_id tid) xs of None \<Rightarrow> JUndefined | Some x \<Rightarrow> x)"
proof (induction xs)
  case Nil
  then show ?case by simp
next
  case (Cons x xs)
  show ?case
  proof (cases "has_id tid x")
    case True
    then have "get_prop E x ''id'' = Inr (JStr tid)"
      using has_id_truthy[OF True] by (simp add: truthy_get_prop has_id_def)
    with True show ?thesis by simp
  next
    case False
    with Cons.prems have "\<not> nullish x" and rest: "\<forall>y\<in>set (scanned tid xs). \<not> nullish y"
      by (simp_all add: scanned_def)
    then have "get_prop E x ''id'' = Inr (opt_prop x ''id'')"
      by (simp add: get_prop_not_nullish)
    with False Cons.IH[OF rest] show ?thesis
      by (simp add: has_id_def)
  qed
qed

lemma getTask_fetches:
  assumes "member_truthy (taskCardId_of s tid cardId_arg)"
    and "c = member_string E (taskCardId_of s tid cardId_arg)"
  shows "getTask E tid cardId_arg s =
     ((case fetch_card E c s of
         Inl e \<Rightarrow> Inl (Error (''Failed to get task list: '' @ message_of e))
       | Inr r \<Rightarrow>
           if \<not> isArray (checklist_collection r)
           then Inl (Error (''Failed to get task list: '' @ ''Failed to get task lists for card '' @ c))
           else (case find_by_id E (elements (checklist_collection r)) tid of
                   Inl e \<Rightarrow> Inl (Error (''Failed to get task list: '' @ message_of e))
                 | Inr v \<Rightarrow>
                     if \<not> truthy v
                     then Inl (Error (''Failed to get task list: '' @ ''Task list with ID '' @ tid @
                                      '' not found in card '' @ c))
                     else Inr v)),
      s\<lparr>calls := calls s @ [(card_request c, fetch_card E c s)]\<rparr>)"
proof -
  have arr: "isArray v \<Longrightarrow> truthy v" for v by (cases v) auto
  show ?thesis
    unfolding getTask_def catch_wrap_def
    using assms arr
    by (auto simp: Let_def bindE_def plankaRequest_def throwE_def returnE_def lift_def
        fetch_card_def card_request_def checklist_collection_def included_field_def
        split: sum.splits prod.splits)
qed

lemma taskCardId_of_resolved:
  assumes "c \<noteq> []"
    and "cardId_arg = Some c \<or> \<not> str_truthy cardId_arg \<and> taskCardIdMap s tid = Some c"
  shows "taskCardId_of s tid cardId_arg = CardId c"
  using assms by (auto simp: taskCardId_of_def map_read_def str_truthy_def split: option.splits)


lemma getTask_resolved:
  assumes "c \<noteq> []"
    and "cardId_arg = Some c \<or> \<not> str_truthy cardId_arg \<and> taskCardIdMap s tid = Some c"
  shows "getTask E tid cardId_arg s =
     ((case fetch_card E c s of
         Inl e \<Rightarrow> Inl (Error (''Failed to get task list: '' @ message_of e))
       | Inr r \<Rightarrow>
           if \<not> isArray (checklist_collection r)
           then Inl (Error (''Failed to get task list: '' @ ''Failed to get task lists for card '' @ c))
           else (case find_by_id E (elements (checklist_collection r)) tid of
                   Inl e \<Rightarrow> Inl (Error (''Failed to get task list: '' @ message_of e))
                 | Inr v \<Rightarrow>
                     if \<not> truthy v
                     then Inl (Error (''Failed to get task list: '' @ ''Task list with ID '' @ tid @
                                      '' not found in card '' @ c))
                     else Inr v)),
      s\<lparr>calls := calls s @ [(card_request c, fetch_card E c s)]\<rparr>)"
  using assms(1) by (intro getTask_fetches) (simp_all add: taskCardId_of_resolved[OF assms])


lemma getTask_unresolved:
  assumes "\<not> str_truthy cardId_arg" and "\<not> str_truthy (taskCardIdMap s tid)"
    and "\<not> inherited_hit s tid"
  shows "getTask E tid cardId_arg s =
           (Inl (Error (''Failed to get task list: '' @ card_id_required)), s)"
  using assms
  by (auto simp: getTask_def catch_wrap_def str_truthy_def throwE_def Let_def taskCardId_of_def
      map_read_def inherited_hit_def split: option.splits)

text \<open>
  C5. \<^verbatim>\<open>getTask\<close> resolves the card as the \<^verbatim>\<open>cardId\<close> argument when that is given and
  not empty, else as the entry of the auxiliary map. When neither gives a card, and the
  identifier is not one for which the read of the map finds a member inherited from
  \<^verbatim>\<open>Object.prototype\<close>, it raises the missing-context error and the state is unchanged,
  so no remote call was issued. When one of them gives a card it issues exactly one call,
  the fetch of that card; on a fetched card it raises one error when the checklist
  collection is unavailable, another one when the collection has no entry with the given
  id, and returns the first entry with that id when there is one, provided no entry that
  the scan reads before it stops is \<^verbatim>\<open>null\<close>.
\<close>

theorem getTask_cases:
  "(case resolved_card_id s tid cardId_arg of
      None \<Rightarrow>
        \<not> inherited_hit s tid \<longrightarrow>
        getTask E tid cardId_arg s =
          (Inl (Error (''Failed to get task list: '' @ card_id_required)), s)
    | Some c \<Rightarrow>
        calls (snd (getTask E tid cardId_arg s)) = calls s @ [(card_request c, fetch_card E c s)] \<and>
        (\<forall>r. fetch_card E c s = Inr r \<longrightarrow>
           (\<not> isArray (checklist_collection r) \<longrightarrow>
              fst (getTask E tid cardId_arg s) =
                Inl (Error (''Failed to get task list: '' @
                            ''Failed to get task lists for card '' @ c))) \<and>
           (\<forall>xs. checklist_collection r = JArr xs \<and> (\<forall>x\<in>set (scanned tid xs). \<not> nullish x) \<longrightarrow>
              (case find (has_id tid) xs of
                 None \<Rightarrow>
                   fst (getTask E tid cardId_arg s) =
                     Inl (Error (''Failed to get task list: '' @
                                 ''Task list with ID '' @ tid @ '' not found in card '' @ c))
               | Some x \<Rightarrow> fst (getTask E tid cardId_arg s) = Inr x))) \<and>
        ''Failed to get task lists for card '' @ c \<noteq>
          ''Task list with ID '' @ tid @ '' not found in card '' @ c)"
proof (cases "resolved_card_id s tid cardId_arg")
  case None
  then have "\<not> str_truthy cardId_arg" "\<not> str_truthy (taskCardIdMap s tid)"
    by (auto simp: resolved_card_id_def str_truthy_def split: if_splits option.splits)
  then show ?thesis
    using None by (simp add: getTask_unresolved)
next
  case (Some c)
  then have c: "c \<noteq> []"
    and src: "cardId_arg = Some c \<or> \<not> str_truthy cardId_arg \<and> taskCardIdMap s tid = Some c"
    by (auto simp: resolved_card_id_def str_truthy_def split: if_splits option.splits)
  note eq = getTask_resolved[OF c src, of E]
  have log: "calls (snd (getTask E tid cardId_arg s)) =
       calls s @ [(card_request c, fetch_card E c s)]"
    by (simp add: eq)
  have unavailable: "fst (getTask E tid cardId_arg s) =
       Inl (Error (''Failed to get task list: '' @ ''Failed to get task lists for card '' @ c))"
    if "fetch_card E c s = Inr r" "\<not> isArray (checklist_collection r)" for r
    using that by (simp add: eq)
  have scan: "(case find (has_id tid) xs of
                 None \<Rightarrow>
                   fst (getTask E tid cardId_arg s) =
                     Inl (Error (''Failed to get task list: '' @
                                 ''Task list with ID '' @ tid @ '' not found in card '' @ c))
               | Some x \<Rightarrow> fst (getTask E tid cardId_arg s) = Inr x)"
    if "fetch_card E c s = Inr r" "checklist_collection r = JArr xs"
      "\<forall>x\<in>set (scanned tid xs). \<not> nullish x"
    for r xs
  proof (cases "find (has_id tid) xs")
    case None
    then show ?thesis
      using that by (simp add: eq find_by_id_scanned)
  next
    case (Some x)
    then have "has_id tid x"
      by (auto simp: find_Some_iff)
    then have "truthy x" by (rule has_id_truthy)
    then show ?thesis
      using that Some by (simp add: eq find_by_id_scanned)
  qed
  have distinct: "''Failed to get task lists for card '' @ c \<noteq>
      ''Task list with ID '' @ tid @ '' not found in card '' @ c"
    by simp
  show ?thesis
    using Some log unavailable scan distinct by simp
qed

lemma createTask_example:
  "createTask (scripted (Inr (created ''t1'') # rs))
      \<lparr>cardId = ''c9'', name = ''A'', position = None\<rparr> (initial_state example_heap) =
   (Inr (JObj [(''id'', JStr ''t1''), (''name'', JStr ''A'')]),
    \<lparr>taskCardIdMap = [''t1'' \<mapsto> ''c9''], heap = example_heap,
     calls = [(\<lparr>http_method = POST, endpoint = CardTaskLists ''c9'',
                body = Some (JObj [(''name'', JStr ''A''), (''position'', JNum 65535)])\<rparr>,
               Inr (created ''t1''))]\<rparr>)"
  by (simp add: createTask_def run_defs scripted_simps created_def initial_state_def)

text \<open>
  An empty \<^verbatim>\<open>cardId\<close> argument is passed over: after the task list \<^verbatim>\<open>t1\<close> was created
  on card \<^verbatim>\<open>c9\<close>, \<^verbatim>\<open>getTask("t1", "")\<close> fetches card \<^verbatim>\<open>c9\<close>. On a collection that
  holds only \<^verbatim>\<open>null\<close> the scan itself throws, so that the error raised is the wrapped
  \<^verbatim>\<open>TypeError\<close>, not the not-found error. And when nothing was created yet,
  \<^verbatim>\<open>getTask("constructor")\<close> finds the inherited \<^verbatim>\<open>constructor\<close> of the map and fetches
  the card named by its rendering.
\<close>

theorem getTask_counterexample:
  "taskCardIdMap (snd (createTask (scripted [Inr (created ''t1''), Inl (Error ''not found'')])
      \<lparr>cardId = ''c9'', name = ''A'', position = None\<rparr> (initial_state example_heap))) ''t1''
     = Some ''c9'' \<and>
   map (endpoint \<circ> fst)
     (calls (snd (getTask (scripted [Inr (created ''t1''), Inl (Error ''not found'')]) ''t1'' (Some [])
        (snd (createTask (scripted [Inr (created ''t1''), Inl (Error ''not found'')])
           \<lparr>cardId = ''c9'', name = ''A'', position = None\<rparr> (initial_state example_heap))))))
     = [CardTaskLists ''c9'', Card ''c9''] \<and>
   fst (getTask (scripted [Inr (card_with (JArr [JNull]) JUndefined)]) ''t1'' (Some ''c1'')
          (initial_state example_heap))
     = Inl (Error (''Failed to get task list: Cannot read properties of null (reading '' @
                   [CHR 0x27] @ ''id'' @ [CHR 0x27] @ '')'')) \<and>
   taskCardIdMap (initial_state example_heap) ''constructor'' = None \<and>
   map (endpoint \<circ> fst)
     (calls (snd (getTask (scripted []) ''constructor'' None (initial_state example_heap))))
     = [Card ''function Object() { [native code] }'']"
  by (simp add: createTask_example getTask_def Object_prototype_names_def str_truthy_def
      run_defs scripted_simps
      card_with_def lor_def initial_state_simps)

theorem getTask_cases_witness:
  "getTask (scripted []) ''t1'' None (initial_state example_heap) =
     (Inl (Error (''Failed to get task list: '' @ card_id_required)), initial_state example_heap) \<and>
   fst (getTask (scripted [Inr (card_with (JArr two_lists) JUndefined)]) ''t2'' (Some ''c1'')
          (initial_state example_heap)) =
     Inr (JObj [(''id'', JStr ''t2''), (''name'', JStr ''B'')]) \<and>
   fst (getTask (scripted [Inr (card_with (JArr two_lists) JUndefined)]) ''t3'' (Some ''c1'')
          (initial_state example_heap)) =
     Inl (Error ''Failed to get task list: Task list with ID t3 not found in card c1'') \<and>
   fst (getTask (scripted [Inr (card_with JUndefined JUndefined)]) ''t1'' (Some ''c1'')
          (initial_state example_heap)) =
     Inl (Error ''Failed to get task list: Failed to get task lists for card c1'') \<and>
   calls (snd (getTask (scripted [Inr (card_with (JArr two_lists) JUndefined)]) ''t2'' (Some ''c1'')
          (initial_state example_heap))) =
     [(card_request ''c1'', Inr (card_with (JArr two_lists) JUndefined))] \<and>
   fst (getTask (scripted [Inr (card_with (JArr (two_lists @ [JNull])) JUndefined)]) ''t2''
          (Some ''c1'') (initial_state example_heap)) =
     Inr (JObj [(''id'', JStr ''t2''), (''name'', JStr ''B'')])"
proof -
  let ?s = "initial_state example_heap"
  let ?r = "card_with (JArr two_lists) JUndefined"
  let ?r' = "card_with JUndefined JUndefined"
  let ?rn = "card_with (JArr (two_lists @ [JNull])) JUndefined"
  have none: "resolved_card_id ?s ''t1'' None = None"
    by (simp add: resolved_card_id_def str_truthy_def initial_state_def)
  have plain: "\<not> inherited_hit ?s ''t1''"
    by (simp add: inherited_hit_def Object_prototype_names_def)
  have some: "resolved_card_id ?s tid (Some ''c1'') = Some ''c1''" for tid
    by (simp add: resolved_card_id_def str_truthy_def)
  have f: "fetch_card (scripted [x]) ''c1'' ?s = x" for x
    by (simp add: fetch_card_def scripted_simps initial_state_def)
  have coll: "checklist_collection ?r = JArr two_lists"
    by (simp add: checklist_collection_def included_field_def card_with_def lor_def two_lists_def)
  have colln: "checklist_collection ?rn = JArr (two_lists @ [JNull])"
    by (simp add: checklist_collection_def included_field_def card_with_def lor_def two_lists_def)
  have sc: "\<forall>x\<in>set (scanned tid two_lists). \<not> nullish x" for tid
  proof -
    have "\<forall>x\<in>set two_lists. \<not> nullish x"
      by (simp add: two_lists_def nullish_def)
    then show ?thesis
      unfolding scanned_def by (meson set_takeWhileD)
  qed
  have scn: "\<forall>x\<in>set (scanned ''t2'' (two_lists @ [JNull])). \<not> nullish x"
    by (simp add: scanned_def two_lists_def nullish_def has_id_def)
  have find2: "find (has_id ''t2'') two_lists =
      Some (JObj [(''id'', JStr ''t2''), (''name'', JStr ''B'')])"
    by (simp add: two_lists_def has_id_def)
  have find2n: "find (has_id ''t2'') (two_lists @ [JNull]) =
      Some (JObj [(''id'', JStr ''t2''), (''name'', JStr ''B'')])"
    by (simp add: two_lists_def has_id_def)
  have find3: "find (has_id ''t3'') two_lists = None"
    by (simp add: two_lists_def has_id_def)
  have una: "\<not> isArray (checklist_collection ?r')"
    by (simp add: checklist_collection_def included_field_def card_with_def lor_def)
  have w1: "getTask (scripted []) ''t1'' None ?s =
     (Inl (Error (''Failed to get task list: '' @ card_id_required)), ?s)"
    using getTask_cases[where s = ?s and tid = "''t1''" and cardId_arg = None and E = "scripted []"]
      plain
    by (simp only: none option.case simp_thms)
  have T: "calls (snd (getTask (scripted [Inr r]) tid (Some ''c1'') ?s)) =
        calls ?s @ [(card_request ''c1'', Inr r)] \<and>
      (\<not> isArray (checklist_collection r) \<longrightarrow>
              fst (getTask (scripted [Inr r]) tid (Some ''c1'') ?s) =
                Inl (Error (''Failed to get task list: '' @
                            ''Failed to get task lists for card '' @ ''c1''))) \<and>
      (\<forall>xs. checklist_collection r = JArr xs \<and> (\<forall>x\<in>set (scanned tid xs). \<not> nullish x) \<longrightarrow>
              (case find (has_id tid) xs of
                 None \<Rightarrow>
                   fst (getTask (scripted [Inr r]) tid (Some ''c1'') ?s) =
                     Inl (Error (''Failed to get task list: '' @
                                 ''Task list with ID '' @ tid @ '' not found in card '' @ ''c1''))
               | Some x \<Rightarrow> fst (getTask (scripted [Inr r]) tid (Some ''c1'') ?s) = Inr x))" for r tid
    using getTask_cases[where s = ?s and tid = tid and cardId_arg = "Some ''c1''"
        and E = "scripted [Inr r]"]
    by (simp only: some option.case f) blast
  have w2: "fst (getTask (scripted [Inr ?r]) ''t2'' (Some ''c1'') ?s) =
     Inr (JObj [(''id'', JStr ''t2''), (''name'', JStr ''B'')])"
  proof -
    from T[of ?r "''t2''"] coll sc[of "''t2''"]
    have "case find (has_id ''t2'') two_lists of
                 None \<Rightarrow>
                   fst (getTask (scripted [Inr ?r]) ''t2'' (Some ''c1'') ?s) =
                     Inl (Error (''Failed to get task list: '' @
                                 ''Task list with ID '' @ ''t2'' @ '' not found in card '' @ ''c1''))
               | Some x \<Rightarrow> fst (getTask (scripted [Inr ?r]) ''t2'' (Some ''c1'') ?s) = Inr x"
      by blast
    then show ?thesis by (simp only: find2 option.case)
  qed
  have w3: "fst (getTask (scripted [Inr ?r]) ''t3'' (Some ''c1'') ?s) =
     Inl (Error ''Failed to get task list: Task list with ID t3 not found in card c1'')"
  proof -
    from T[of ?r "''t3''"] coll sc[of "''t3''"]
    have "case find (has_id ''t3'') two_lists of
                 None \<Rightarrow>
                   fst (getTask (scripted [Inr ?r]) ''t3'' (Some ''c1'') ?s) =
                     Inl (Error (''Failed to get task list: '' @
                                 ''Task list with ID '' @ ''t3'' @ '' not found in card '' @ ''c1''))
               | Some x \<Rightarrow> fst (getTask (scripted [Inr ?r]) ''t3'' (Some ''c1'') ?s) = Inr x"
      by blast
    then show ?thesis by (simp add: find3)
  qed
  have w4: "fst (getTask (scripted [Inr ?r']) ''t1'' (Some ''c1'') ?s) =
     Inl (Error ''Failed to get task list: Failed to get task lists for card c1'')"
    using T[of ?r' "''t1''"] una by simp
  have w5: "calls (snd (getTask (scripted [Inr ?r]) ''t2'' (Some ''c1'') ?s)) =
     [(card_request ''c1'', Inr ?r)]"
    using T[of ?r "''t2''"] by (simp add: initial_state_def)
  have w6: "fst (getTask (scripted [Inr ?rn]) ''t2'' (Some ''c1'') ?s) =
     Inr (JObj [(''id'', JStr ''t2''), (''name'', JStr ''B'')])"
  proof -
    from T[of ?rn "''t2''"] colln scn
    have "case find (has_id ''t2'') (two_lists @ [JNull]) of
                 None \<Rightarrow>
                   fst (getTask (scripted [Inr ?rn]) ''t2'' (Some ''c1'') ?s) =
                     Inl (Error (''Failed to get task list: '' @
                                 ''Task list with ID '' @ ''t2'' @ '' not found in card '' @ ''c1''))
               | Some x \<Rightarrow> fst (getTask (scripted [Inr ?rn]) ''t2'' (Some ''c1'') ?s) = Inr x"
      by blast
    then show ?thesis by (simp only: find2n option.case)
  qed
  show ?thesis
    using w1 w2 w3 w4 w5 w6 by simp
qed

section \<open>Creating a task list\<close>

lemma createTask_eq:
  "createTask E p s =
     (create_outcome E (next_response E s (create_request p)),
      s\<lparr>calls := calls s @ [(create_request p, next_response E s (create_request p))],
        taskCardIdMap :=
          record_creation E (taskCardIdMap s)
            (create_request p, next_response E s (create_request p))\<rparr>)"
proof (cases "next_response E s (create_request p)")
  case (Inl e)
  then show ?thesis
    by (simp add: createTask_def create_outcome_def record_creation_def next_response_def
        create_request_def catch_wrap_def bindE_def plankaRequest_def Let_def)
next
  case (Inr response)
  show ?thesis
  proof (cases "get_prop E response ''item''")
    case (Inl e)
    then show ?thesis
      using Inr
      by (simp add: createTask_def create_outcome_def record_creation_def next_response_def
          create_request_def catch_wrap_def bindE_def plankaRequest_def Let_def lift_def)
  next
    case item: (Inr item)
    then show ?thesis
      using Inr
      by (simp add: createTask_def create_outcome_def record_creation_def next_response_def
          create_request_def catch_wrap_def bindE_def plankaRequest_def Let_def lift_def
          returnE_def recorded_key_def truthy_get_prop map_write_def)
  qed
qed

lemma createTask_heap: "heap (snd (createTask E p s)) = heap s"
  by (simp add: createTask_eq)


section \<open>The batch creation\<close>

lemma outcomes_Cons: "outcomes E (x # news) = create_outcome E (snd x) # outcomes E news"
  by (simp add: outcomes_def)


lemma batch_loop_views:
  "batch_loop E ts i acc s = (acc', s') \<Longrightarrow>
   \<exists>news. calls s' = calls s @ news \<and> length news = length ts \<and>
     results acc' = results acc @ map result_entry (outcomes E news) \<and>
     successes acc' = successes acc @ success_items (outcomes E news) \<and>
     failures acc' = failures acc @ failure_records i ts (outcomes E news)"
proof (induction ts arbitrary: i acc s)
  case Nil
  then show ?case by (simp add: outcomes_def)
next
  case (Cons t ts)
  define s1 where "s1 = (if position_missing (position (heap s t))
                then s\<lparr>heap := (heap s)
                       (t := (heap s t)\<lparr>position := Some (65535 * (int i + 1))\<rparr>)\<rparr>
                else s)"
  have c1: "calls s1 = calls s" by (simp add: s1_def)
  define x where "x = (create_request (heap s1 t), next_response E s1 (create_request (heap s1 t)))"
  define s2 where "s2 = snd (createTask E (heap s1 t) s1)"
  have out: "createTask E (heap s1 t) s1 = (create_outcome E (snd x), s2)"
    and c2: "calls s2 = calls s @ [x]"
    by (simp_all add: s2_def x_def createTask_eq c1)
  show ?case
  proof (cases "create_outcome E (snd x)")
    case (Inr item)
    with Cons.prems out have
      "batch_loop E ts (i + 1)
         (acc\<lparr>results := results acc @ [JObj [(''success'', JBool True), (''result'', item)]],
              successes := successes acc @ [item]\<rparr>) s2 = (acc', s')"
      by (simp add: s1_def[symmetric] Let_def)
    from Cons.IH[OF this] obtain news where
      "calls s' = calls s2 @ news" "length news = length ts"
      "results acc' = (results acc @ [JObj [(''success'', JBool True), (''result'', item)]]) @
          map result_entry (outcomes E news)"
      "successes acc' = (successes acc @ [item]) @ success_items (outcomes E news)"
      "failures acc' = failures acc @ failure_records (i + 1) ts (outcomes E news)"
      by auto
    then show ?thesis
      using Inr c2 by (intro exI[of _ "x # news"]) (simp add: outcomes_Cons)
  next
    case (Inl e)
    with Cons.prems out have
      "batch_loop E ts (i + 1)
         (acc\<lparr>results := results acc @
                        [JObj [(''success'', JBool False),
                               (''error'', JObj [(''message'', JStr (message_of e))])]],
                     failures := failures acc @
                        [\<lparr>index = i, task = t, error = message_of e\<rparr>]\<rparr>) s2 = (acc', s')"
      by (simp add: s1_def[symmetric] Let_def)
    from Cons.IH[OF this] obtain news where
      "calls s' = calls s2 @ news" "length news = length ts"
      "results acc' = (results acc @ [JObj [(''success'', JBool False),
                               (''error'', JObj [(''message'', JStr (message_of e))])]]) @
          map result_entry (outcomes E news)"
      "successes acc' = successes acc @ success_items (outcomes E news)"
      "failures acc' = (failures acc @ [\<lparr>index = i, task = t, error = message_of e\<rparr>]) @
          failure_records (i + 1) ts (outcomes E news)"
      by auto
    then show ?thesis
      using Inl c2 by (intro exI[of _ "x # news"]) (simp add: outcomes_Cons)
  qed
qed

lemma batch_loop_heap_kept:
  "batch_loop E ts i acc s = (acc', s') \<Longrightarrow> \<not> position_missing (position (heap s r)) \<Longrightarrow>
   heap s' r = heap s r"
proof (induction ts arbitrary: i acc s)
  case Nil
  then show ?case by simp
next
  case (Cons t ts)
  define s1 where "s1 = (if position_missing (position (heap s t))
                then s\<lparr>heap := (heap s)
                       (t := (heap s t)\<lparr>position := Some (65535 * (int i + 1))\<rparr>)\<rparr>
                else s)"
  have h1: "heap s1 r = heap s r"
    using Cons.prems(2) by (auto simp: s1_def)
  define s2 where "s2 = snd (createTask E (heap s1 t) s1)"
  have h2: "heap s2 = heap s1"
    by (simp add: s2_def createTask_heap)
  obtain acc2 where "batch_loop E ts (i + 1) acc2 s2 = (acc', s')"
    using Cons.prems(1)
    by (cases "createTask E (heap s1 t) s1")
       (auto simp: s1_def[symmetric] s2_def Let_def split: sum.splits)
  from Cons.IH[OF this] Cons.prems(2) show ?case
    by (simp add: h1 h2)
qed

lemma batch_loop_requests:
  "batch_loop E ts i acc s = (acc', s') \<Longrightarrow>
   map fst (new_calls s s') = map (\<lambda>t. create_request (heap s' t)) ts"
proof (induction ts arbitrary: i acc s)
  case Nil
  then show ?case by (simp add: new_calls_def)
next
  case (Cons t ts)
  define s1 where "s1 = (if position_missing (position (heap s t))
                then s\<lparr>heap := (heap s)
                       (t := (heap s t)\<lparr>position := Some (65535 * (int i + 1))\<rparr>)\<rparr>
                else s)"
  have filled: "\<not> position_missing (position (heap s1 t))"
    by (auto simp: s1_def position_missing_def)
  have c1: "calls s1 = calls s" by (simp add: s1_def)
  define s2 where "s2 = snd (createTask E (heap s1 t) s1)"
  have h2: "heap s2 = heap s1"
    by (simp add: s2_def createTask_heap)
  have c2: "calls s2 = calls s @
      [(create_request (heap s1 t), next_response E s1 (create_request (heap s1 t)))]"
    by (simp add: s2_def createTask_eq c1)
  obtain acc2 where rest: "batch_loop E ts (i + 1) acc2 s2 = (acc', s')"
    using Cons.prems(1)
    by (cases "createTask E (heap s1 t) s1")
       (auto simp: s1_def[symmetric] s2_def Let_def split: sum.splits)
  from batch_loop_views[OF rest] obtain news where news: "calls s' = calls s2 @ news"
    by blast
  have kept: "heap s' t = heap s1 t"
    using batch_loop_heap_kept[OF rest, of t] filled by (simp add: h2)
  have "map fst (new_calls s2 s') = map (\<lambda>t. create_request (heap s' t)) ts"
    by (rule Cons.IH[OF rest])
  moreover have "new_calls s s' =
      (create_request (heap s1 t), next_response E s1 (create_request (heap s1 t))) #
      new_calls s2 s'"
    by (simp add: new_calls_def news c2)
  ultimately show ?case
    by (simp add: kept)
qed






section \<open>Positions assigned by the batch\<close>

lemma batch_loop_step:
  "\<exists>acc2. batch_loop E (t # ts) i acc s =
     batch_loop E ts (i + 1) acc2
       (snd (createTask E
          (heap (if position_missing (position (heap s t))
                 then s\<lparr>heap := (heap s)
                        (t := (heap s t)\<lparr>position := Some (65535 * (int i + 1))\<rparr>)\<rparr>
                 else s) t)
          (if position_missing (position (heap s t))
           then s\<lparr>heap := (heap s)
                  (t := (heap s t)\<lparr>position := Some (65535 * (int i + 1))\<rparr>)\<rparr>
           else s)))"
  by (auto simp: Let_def split: prod.splits sum.splits)

lemma batch_loop_heap_other:
  "batch_loop E ts i acc s = (acc', s') \<Longrightarrow> r \<notin> set ts \<Longrightarrow> heap s' r = heap s r"
proof (induction ts arbitrary: i acc s)
  case Nil
  then show ?case by simp
next
  case (Cons t ts)
  define s1 where "s1 = (if position_missing (position (heap s t))
                then s\<lparr>heap := (heap s)
                       (t := (heap s t)\<lparr>position := Some (65535 * (int i + 1))\<rparr>)\<rparr>
                else s)"
  have h1: "heap s1 r = heap s r"
    using Cons.prems(2) by (auto simp: s1_def)
  from batch_loop_step[of E t ts i acc s] obtain acc2 where
    "batch_loop E (t # ts) i acc s =
       batch_loop E ts (i + 1) acc2 (snd (createTask E (heap s1 t) s1))"
    unfolding s1_def by blast
  with Cons.prems(1) have
    "batch_loop E ts (i + 1) acc2 (snd (createTask E (heap s1 t) s1)) = (acc', s')"
    by simp
  from Cons.IH[OF this] Cons.prems(2) show ?case
    by (simp add: createTask_heap h1)
qed

text \<open>
  What the batch leaves in the store for the input items, when these are distinct objects:
  an item with a missing position (or with position \<^verbatim>\<open>0\<close>) gets
  \<^verbatim>\<open>65535 * (index + 1)\<close>, every other item is left as it was.
\<close>

lemma batch_loop_positions:
  "batch_loop E ts i acc s = (acc', s') \<Longrightarrow> distinct ts \<Longrightarrow> k < length ts \<Longrightarrow>
   heap s' (ts ! k) =
     (if position_missing (position (heap s (ts ! k)))
      then (heap s (ts ! k))\<lparr>position := Some (65535 * (int (i + k) + 1))\<rparr>
      else heap s (ts ! k))"
proof (induction ts arbitrary: i acc s k)
  case Nil
  then show ?case by simp
next
  case (Cons t ts)
  define s1 where "s1 = (if position_missing (position (heap s t))
                then s\<lparr>heap := (heap s)
                       (t := (heap s t)\<lparr>position := Some (65535 * (int i + 1))\<rparr>)\<rparr>
                else s)"
  from batch_loop_step[of E t ts i acc s] obtain acc2 where
    "batch_loop E (t # ts) i acc s =
       batch_loop E ts (i + 1) acc2 (snd (createTask E (heap s1 t) s1))"
    unfolding s1_def by blast
  with Cons.prems(1) have
    rest: "batch_loop E ts (i + 1) acc2 (snd (createTask E (heap s1 t) s1)) = (acc', s')"
    by simp
  have h2: "heap (snd (createTask E (heap s1 t) s1)) = heap s1"
    by (rule createTask_heap)
  show ?case
  proof (cases k)
    case 0
    from Cons.prems(2) have "t \<notin> set ts" by simp
    from batch_loop_heap_other[OF rest this] have "heap s' t = heap s1 t"
      by (simp add: h2)
    then show ?thesis
      using 0 by (simp add: s1_def)
  next
    case (Suc k')
    with Cons.prems have k': "k' < length ts" and d: "distinct ts" and ne: "ts ! k' \<noteq> t"
      by auto
    have same: "heap s1 (ts ! k') = heap s (ts ! k')"
      using ne by (simp add: s1_def)
    from Cons.IH[OF rest d k'] show ?thesis
      using Suc by (simp add: h2 same)
  qed
qed

lemma batchCreateTasks_positions:
  assumes "distinct tasks" and "k < length tasks"
  shows "fst (new_calls s (snd (batchCreateTasks E tasks s)) ! k) =
     create_request
       (if position_missing (position (heap s (tasks ! k)))
        then (heap s (tasks ! k))\<lparr>position := Some (65535 * (int k + 1))\<rparr>
        else heap s (tasks ! k))"
proof -
  obtain out s' where
    loop: "batch_loop E tasks 0 \<lparr>results = [], successes = [], failures = []\<rparr> s = (out, s')"
    by (cases "batch_loop E tasks 0 \<lparr>results = [], successes = [], failures = []\<rparr> s")
  have run: "snd (batchCreateTasks E tasks s) = s'"
    by (simp add: batchCreateTasks_def catch_wrap_def loop)
  have reqs: "map fst (new_calls s s') = map (\<lambda>t. create_request (heap s' t)) tasks"
    by (rule batch_loop_requests[OF loop])
  have "length (new_calls s s') = length tasks"
    using arg_cong[OF reqs, of length] by simp
  with assms(2) have "fst (new_calls s s' ! k) = map fst (new_calls s s') ! k"
    by simp
  also have "\<dots> = create_request (heap s' (tasks ! k))"
    using assms(2) by (simp add: reqs)
  finally show ?thesis
    using batch_loop_positions[OF loop assms] by (simp add: run)
qed

text \<open>
  Every input item has a position once the batch is over, so a second batch on the same
  input issues the same requests as the first.
\<close>

lemma batch_loop_filled:
  "batch_loop E ts i acc s = (acc', s') \<Longrightarrow> t \<in> set ts \<Longrightarrow>
   \<not> position_missing (position (heap s' t))"
proof (induction ts arbitrary: i acc s)
  case Nil
  then show ?case by simp
next
  case (Cons u ts)
  define s1 where "s1 = (if position_missing (position (heap s u))
                then s\<lparr>heap := (heap s)
                       (u := (heap s u)\<lparr>position := Some (65535 * (int i + 1))\<rparr>)\<rparr>
                else s)"
  from batch_loop_step[of E u ts i acc s] obtain acc2 where
    "batch_loop E (u # ts) i acc s =
       batch_loop E ts (i + 1) acc2 (snd (createTask E (heap s1 u) s1))"
    unfolding s1_def by blast
  with Cons.prems(1) have
    rest: "batch_loop E ts (i + 1) acc2 (snd (createTask E (heap s1 u) s1)) = (acc', s')"
    by simp
  have filled: "\<not> position_missing (position (heap s1 u))"
    by (auto simp: s1_def position_missing_def)
  show ?case
  proof (cases "t \<in> set ts")
    case True
    then show ?thesis by (rule Cons.IH[OF rest])
  next
    case False
    with Cons.prems(2) have "t = u" by simp
    with filled batch_loop_heap_kept[OF rest, of u] show ?thesis
      by (simp add: createTask_heap)
  qed
qed

lemma batchCreateTasks_repeat:
  "map fst (new_calls (snd (batchCreateTasks E tasks s))
              (snd (batchCreateTasks E tasks (snd (batchCreateTasks E tasks s))))) =
   map fst (new_calls s (snd (batchCreateTasks E tasks s)))"
proof -
  let ?init = "\<lparr>results = [], successes = [], failures = []\<rparr>"
  obtain out s' where loop: "batch_loop E tasks 0 ?init s = (out, s')"
    by (cases "batch_loop E tasks 0 ?init s")
  obtain out' s'' where loop': "batch_loop E tasks 0 ?init s' = (out', s'')"
    by (cases "batch_loop E tasks 0 ?init s'")
  have run: "snd (batchCreateTasks E tasks s) = s'"
    by (simp add: batchCreateTasks_def catch_wrap_def loop)
  have run': "snd (batchCreateTasks E tasks s') = s''"
    by (simp add: batchCreateTasks_def catch_wrap_def loop')
  have "heap s'' t = heap s' t" if "t \<in> set tasks" for t
    using batch_loop_heap_kept[OF loop'] batch_loop_filled[OF loop that] by simp
  then have "map (\<lambda>t. create_request (heap s'' t)) tasks = map (\<lambda>t. create_request (heap s' t)) tasks"
    by simp
  then show ?thesis
    using batch_loop_requests[OF loop] batch_loop_requests[OF loop'] by (simp add: run run')
qed

text \<open>
  C4, at an input item whose explicit position is \<^verbatim>\<open>0\<close>. The object at reference \<open>40\<close>
  is \<^verbatim>\<open>{cardId: "c3", name: "D", position: 0}\<close>; as the second item of a batch it is
  created with position \<^verbatim>\<open>131070 = 65535 * 2\<close>, because \<^verbatim>\<open>!task.position\<close> holds of
  \<^verbatim>\<open>0\<close>, while the first item keeps its explicit position \<^verbatim>\<open>7\<close>.
\<close>

theorem batchCreateTasks_zero_position:
  "position (example_heap 40) = Some 0 \<and>
   map (body \<circ> fst)
     (calls (snd (batchCreateTasks (scripted [Inr (created ''t1''), Inr (created ''t2'')])
        [20, 40] (initial_state example_heap)))) =
     [Some (JObj [(''name'', JStr ''B''), (''position'', JNum 7)]),
      Some (JObj [(''name'', JStr ''D''), (''position'', JNum 131070)])]"
  by (simp add: batchCreateTasks_def createTask_def run_defs scripted_simps
      created_def initial_state_def example_heap_def position_missing_def)

section \<open>Creating a task list with its tasks\<close>

lemma createTaskInTaskList_eq:
  "createTaskInTaskList E taskListId (task_name t) (Some (65535 * (int i + 1)))
      (Some (isCompleted t = Some True)) s =
     (item_outcome E (next_response E s (item_request E taskListId i t)),
      s\<lparr>calls := calls s @ [(item_request E taskListId i t,
                              next_response E s (item_request E taskListId i t))]\<rparr>)"
  by (auto simp: createTaskInTaskList_def item_outcome_def item_request_def next_response_def
      catch_wrap_def bindE_def plankaRequest_def lift_def Let_def split: sum.splits)

lemma item_requests_Cons:
  "item_requests E taskList i (t # ts) =
     item_request E (opt_prop taskList ''id'') i t # item_requests E taskList (Suc i) ts"
  by (simp add: item_requests_def)

lemma item_outcomes_Cons: "item_outcomes E (x # xs) = item_outcome E (snd x) # item_outcomes E xs"
  by (simp add: item_outcomes_def)

lemma create_items_success:
  "create_items E taskList ts i acc s = (Inr items, s') \<Longrightarrow>
   \<exists>xs created. calls s' = calls s @ xs \<and> items = acc @ created \<and>
      map fst xs = item_requests E taskList i ts \<and>
      item_outcomes E xs = map Inr created"
proof (induction ts arbitrary: i acc s)
  case Nil
  then show ?case by (simp add: item_requests_def item_outcomes_def)
next
  case (Cons t ts)
  from Cons.prems obtain taskListId where tlid: "get_prop E taskList ''id'' = Inr taskListId"
    by (cases "get_prop E taskList ''id''") auto
  then have id_eq: "taskListId = opt_prop taskList ''id''"
    by (cases taskList) auto
  define x where "x = (item_request E taskListId i t, next_response E s (item_request E taskListId i t))"
  define s1 where "s1 = s\<lparr>calls := calls s @ [x]\<rparr>"
  have step: "createTaskInTaskList E taskListId (task_name t) (Some (65535 * (int i + 1)))
      (Some (isCompleted t = Some True)) s = (item_outcome E (snd x), s1)"
    unfolding x_def s1_def snd_conv by (rule createTaskInTaskList_eq)
  from Cons.prems tlid step obtain createdTask where
    ok: "item_outcome E (snd x) = Inr createdTask"
    and rest: "create_items E taskList ts (i + 1) (acc @ [createdTask]) s1 = (Inr items, s')"
    by (cases "item_outcome E (snd x)") auto
  from Cons.IH[OF rest] obtain xs created where
    "calls s' = calls s1 @ xs" "items = (acc @ [createdTask]) @ created"
    "map fst xs = item_requests E taskList (i + 1) ts" "item_outcomes E xs = map Inr created"
    by blast
  then show ?case
    using ok
    by (intro exI[of _ "x # xs"] exI[of _ "createdTask # created"])
       (simp add: s1_def item_requests_Cons item_outcomes_Cons x_def id_eq)
qed



lemma createTaskListWithTasks_eq:
  "createTaskListWithTasks E c nm tasks s =
     (case create_outcome E (next_response E s (list_request c nm)) of
        Inl e0 \<Rightarrow>
          (Inl (Error (''Failed to create task list with tasks: '' @ message_of e0)),
           snd (createTask E \<lparr>cardId = c, name = nm, position = None\<rparr> s))
      | Inr taskList \<Rightarrow>
          (case create_items E taskList tasks 0 []
                  (snd (createTask E \<lparr>cardId = c, name = nm, position = None\<rparr> s)) of
             (Inl e1, s') \<Rightarrow>
               (Inl (Error (''Failed to create task list with tasks: '' @ message_of e1)), s')
           | (Inr createdTasks, s') \<Rightarrow> (Inr (taskList, createdTasks), s')))"
  by (simp add: createTaskListWithTasks_def catch_wrap_def bindE_def returnE_def createTask_eq
      list_request_def split: sum.splits prod.splits)

lemma calls_after_createTask:
  "calls (snd (createTask E \<lparr>cardId = c, name = nm, position = None\<rparr> s)) =
     calls s @ [(list_request c nm, next_response E s (list_request c nm))]"
  by (simp add: createTask_eq list_request_def)

text \<open>
  C3. When \<^verbatim>\<open>createTaskListWithTasks\<close> returns, it returns the entity created by its first
  request, which creates the task list with position \<^verbatim>\<open>65535\<close>, and one created item per
  input item, in input order: the request for the item at index \<open>i\<close> follows the one for
  index \<open>i - 1\<close> and carries the position \<^verbatim>\<open>65535 * (i + 1)\<close> and the item's
  \<^verbatim>\<open>isCompleted\<close>, or \<^verbatim>\<open>false\<close> when that is omitted.
\<close>

theorem createTaskListWithTasks_success:
  "createTaskListWithTasks E c nm tasks s = (Inr (taskList, items), s') \<Longrightarrow>
   length items = length tasks \<and>
   body (list_request c nm) = Some (JObj [(''name'', JStr nm), (''position'', JNum 65535)]) \<and>
   (\<exists>r0 xs. new_calls s s' = (list_request c nm, r0) # xs \<and>
       create_outcome E r0 = Inr taskList \<and>
       map fst xs = item_requests E taskList 0 tasks \<and>
       item_outcomes E xs = map Inr items) \<and>
   (\<forall>i<length tasks.
       body (item_requests E taskList 0 tasks ! i) =
         Some (JObj [(''name'', JStr (task_name (tasks ! i))),
                     (''position'', JNum (65535 * (int i + 1))),
                     (''isCompleted'',
                      JBool (case isCompleted (tasks ! i) of None \<Rightarrow> False | Some b \<Rightarrow> b))]))"
proof -
  assume run: "createTaskListWithTasks E c nm tasks s = (Inr (taskList, items), s')"
  let ?r0 = "next_response E s (list_request c nm)"
  let ?s1 = "snd (createTask E \<lparr>cardId = c, name = nm, position = None\<rparr> s)"
  from run have ok: "create_outcome E ?r0 = Inr taskList"
    and loop: "create_items E taskList tasks 0 [] ?s1 = (Inr items, s')"
    by (auto simp: createTaskListWithTasks_eq split: sum.splits prod.splits)
  from create_items_success[OF loop] obtain xs where
    c: "calls s' = calls ?s1 @ xs"
    and reqs: "map fst xs = item_requests E taskList 0 tasks"
    and outs: "item_outcomes E xs = map Inr items"
    by auto
  have len: "length items = length tasks"
  proof -
    have "length (map Inr items :: (exn + jsval) list) = length (item_outcomes E xs)"
      by (simp add: outs)
    also have "\<dots> = length (map fst xs)" by (simp add: item_outcomes_def)
    also have "\<dots> = length tasks" by (simp add: reqs item_requests_def)
    finally show ?thesis by simp
  qed
  have nc: "new_calls s s' = (list_request c nm, ?r0) # xs"
    by (simp add: new_calls_def c calls_after_createTask)
  have bodies: "body (item_requests E taskList 0 tasks ! i) =
         Some (JObj [(''name'', JStr (task_name (tasks ! i))),
                     (''position'', JNum (65535 * (int i + 1))),
                     (''isCompleted'',
                      JBool (case isCompleted (tasks ! i) of None \<Rightarrow> False | Some b \<Rightarrow> b))])"
    if "i < length tasks" for i
    using that
    by (auto simp: item_requests_def nth_enumerate_eq item_request_def split: option.splits)
  have first: "body (list_request c nm) =
      Some (JObj [(''name'', JStr nm), (''position'', JNum 65535)])"
    by (simp add: list_request_def create_request_def)
  show ?thesis
    using len first nc ok reqs outs bodies by blast
qed





lemma with_tasks_all_created:
  "createTaskListWithTasks
     (scripted [Inr (created ''t1''), Inr (created_item ''i1''), Inr (created_item ''i2''),
                Inr (created_item ''i3'')])
     ''c1'' ''L'' three_items (initial_state example_heap) =
   (Inr (JObj [(''id'', JStr ''t1''), (''name'', JStr ''A'')],
         [JObj [(''id'', JStr ''i1'')], JObj [(''id'', JStr ''i2'')], JObj [(''id'', JStr ''i3'')]]),
    \<lparr>taskCardIdMap = [''t1'' \<mapsto> ''c1''], heap = example_heap,
     calls =
       [(\<lparr>http_method = POST, endpoint = CardTaskLists ''c1'',
          body = Some (JObj [(''name'', JStr ''L''), (''position'', JNum 65535)])\<rparr>,
         Inr (created ''t1'')),
        (\<lparr>http_method = POST, endpoint = TaskListTasks ''t1'',
          body = Some (JObj [(''name'', JStr ''x''), (''position'', JNum 65535),
                             (''isCompleted'', JBool False)])\<rparr>,
         Inr (created_item ''i1'')),
        (\<lparr>http_method = POST, endpoint = TaskListTasks ''t1'',
          body = Some (JObj [(''name'', JStr ''y''), (''position'', JNum 131070),
                             (''isCompleted'', JBool True)])\<rparr>,
         Inr (created_item ''i2'')),
        (\<lparr>http_method = POST, endpoint = TaskListTasks ''t1'',
          body = Some (JObj [(''name'', JStr ''z''), (''position'', JNum 196605),
                             (''isCompleted'', JBool False)])\<rparr>,
         Inr (created_item ''i3''))]\<rparr>)"
  by (simp add: createTaskListWithTasks_def createTask_def createTaskInTaskList_def run_defs
      scripted_simps created_def created_item_def three_items_def initial_state_def)

lemma with_tasks_second_fails:
  "createTaskListWithTasks
     (scripted [Inr (created ''t1''), Inr (created_item ''i1''), Inl (Error ''500'')])
     ''c1'' ''L'' three_items (initial_state example_heap) =
   (Inl (Error ''Failed to create task list with tasks: Failed to create task in task list: 500''),
    \<lparr>taskCardIdMap = [''t1'' \<mapsto> ''c1''], heap = example_heap,
     calls =
       [(\<lparr>http_method = POST, endpoint = CardTaskLists ''c1'',
          body = Some (JObj [(''name'', JStr ''L''), (''position'', JNum 65535)])\<rparr>,
         Inr (created ''t1'')),
        (\<lparr>http_method = POST, endpoint = TaskListTasks ''t1'',
          body = Some (JObj [(''name'', JStr ''x''), (''position'', JNum 65535),
                             (''isCompleted'', JBool False)])\<rparr>,
         Inr (created_item ''i1'')),
        (\<lparr>http_method = POST, endpoint = TaskListTasks ''t1'',
          body = Some (JObj [(''name'', JStr ''y''), (''position'', JNum 131070),
                             (''isCompleted'', JBool True)])\<rparr>,
         Inl (Error ''500''))]\<rparr>)"
  by (simp add: createTaskListWithTasks_def createTask_def createTaskInTaskList_def run_defs
      scripted_simps created_def created_item_def three_items_def initial_state_def)

lemma with_tasks_list_fails:
  "createTaskListWithTasks (scripted [Inl (Error ''500'')])
     ''c1'' ''L'' three_items (initial_state example_heap) =
   (Inl (Error ''Failed to create task list with tasks: Failed to create task list: 500''),
    \<lparr>taskCardIdMap = Map.empty, heap = example_heap,
     calls =
       [(\<lparr>http_method = POST, endpoint = CardTaskLists ''c1'',
          body = Some (JObj [(''name'', JStr ''L''), (''position'', JNum 65535)])\<rparr>,
         Inl (Error ''500''))]\<rparr>)"
  by (simp add: createTaskListWithTasks_def createTask_def createTaskInTaskList_def run_defs
      scripted_simps created_def created_item_def three_items_def initial_state_def)

theorem createTaskListWithTasks_success_witness:
  "fst (createTaskListWithTasks
     (scripted [Inr (created ''t1''), Inr (created_item ''i1''), Inr (created_item ''i2''),
                Inr (created_item ''i3'')])
     ''c1'' ''L'' three_items (initial_state example_heap)) =
     Inr (JObj [(''id'', JStr ''t1''), (''name'', JStr ''A'')],
         [JObj [(''id'', JStr ''i1'')], JObj [(''id'', JStr ''i2'')], JObj [(''id'', JStr ''i3'')]]) \<and>
   length [JObj [(''id'', JStr ''i1'')], JObj [(''id'', JStr ''i2'')], JObj [(''id'', JStr ''i3'')]] =
     length three_items \<and>
   body (fst (calls (snd (createTaskListWithTasks
     (scripted [Inr (created ''t1''), Inr (created_item ''i1''), Inr (created_item ''i2''),
                Inr (created_item ''i3'')])
     ''c1'' ''L'' three_items (initial_state example_heap))) ! 3)) =
     Some (JObj [(''name'', JStr ''z''), (''position'', JNum 196605),
                 (''isCompleted'', JBool False)])"
proof -
  let ?E = "scripted [Inr (created ''t1''), Inr (created_item ''i1''), Inr (created_item ''i2''),
                Inr (created_item ''i3'')]"
  let ?s = "initial_state example_heap"
  let ?tl = "JObj [(''id'', JStr ''t1''), (''name'', JStr ''A'')]"
  let ?items = "[JObj [(''id'', JStr ''i1'')], JObj [(''id'', JStr ''i2'')], JObj [(''id'', JStr ''i3'')]]"
  obtain s' where run: "createTaskListWithTasks ?E ''c1'' ''L'' three_items ?s = (Inr (?tl, ?items), s')"
    using with_tasks_all_created by blast
  note T = createTaskListWithTasks_success[OF run]
  from T have len: "length ?items = length three_items" by blast
  from T obtain r0 xs where nc: "new_calls ?s s' = (list_request ''c1'' ''L'', r0) # xs"
    and reqs: "map fst xs = item_requests ?E ?tl 0 three_items"
    by blast
  have three: "(2::nat) < length three_items"
    by (simp add: three_items_def)
  with T have b: "body (item_requests ?E ?tl 0 three_items ! 2) =
         Some (JObj [(''name'', JStr (task_name (three_items ! 2))),
                     (''position'', JNum (65535 * (int 2 + 1))),
                     (''isCompleted'',
                      JBool (case isCompleted (three_items ! 2) of None \<Rightarrow> False | Some b \<Rightarrow> b))])"
    by blast
  have "length xs = length three_items"
    using arg_cong[OF reqs, of length] by (simp add: item_requests_def)
  then have "fst (xs ! 2) = item_requests ?E ?tl 0 three_items ! 2"
    using three nth_map[of 2 xs fst] reqs by simp
  moreover have "calls s' = new_calls ?s s'"
    by (simp add: new_calls_def initial_state_simps)
  ultimately have "fst (calls s' ! 3) = item_requests ?E ?tl 0 three_items ! 2"
    by (simp add: nc)
  with b have "body (fst (calls s' ! 3)) =
      Some (JObj [(''name'', JStr ''z''), (''position'', JNum 196605),
                 (''isCompleted'', JBool False)])"
    by (simp add: three_items_def)
  then show ?thesis
    using run len by simp
qed


section \<open>The auxiliary map over a sequence of calls\<close>






































section \<open>Wrapped failures and validated results\<close>



















end
